theory Spec2Isabelle
  imports Complex_Main "HOL-Library.AList"
begin

unbundle bit_operations_syntax

section \<open>SAJ H2 inverter card with timer: power conversion and day masks\<close>

text \<open>
  The card is one JavaScript class, \<open>SajH2InverterCardTimer\<close>. Its methods are embedded
  here as HOL functions that keep the method names (without the leading underscore).
  Fields of \<open>this\<close> that a method reads are passed as arguments or kept in a record.
\<close>

subsection \<open>Numbers\<close>

text \<open>
  A JavaScript number is an IEEE-754 double (binary64): \<open>NaN\<close>, plus or minus infinity,
  or a finite value, which is modelled by the real number it denotes. The two zeros are
  not kept apart; they differ only in the sign of a quotient by zero and in the sign of
  a zero result, and the code below never divides by zero.

  A nonzero real \<open>x\<close> with \<open>2^e \<le> \<bar>x\<bar> < 2^(e+1)\<close> lies between two neighbouring doubles
  that are multiples of \<open>2^(e-52)\<close>, or of \<open>2^(-1074)\<close> when \<open>e\<close> is below \<open>-1022\<close> (the
  subnormal numbers). \<open>round_double x\<close> is the nearer of the two and, in a tie, the one
  with the even multiple; \<open>fl x\<close> is the double that an arithmetic operation with the
  exact result \<open>x\<close> returns, and the double that a decimal numeral \<open>x\<close> denotes: the
  rounded value, or an infinity when the rounded value is beyond the largest double.
\<close>

datatype double = Finite real | PlusInfinity | MinusInfinity | NotANumber

definition round_ties_even :: "real \<Rightarrow> int" where
  "round_ties_even y =
     (let f = \<lfloor>y\<rfloor>
      in if y - of_int f < 1 / 2 then f
         else if y - of_int f > 1 / 2 then f + 1
         else if even f then f else f + 1)"

definition ulp :: "real \<Rightarrow> real" where
  "ulp x = 2 powi (max \<lfloor>log 2 \<bar>x\<bar>\<rfloor> (- 1022) - 52)"

definition round_double :: "real \<Rightarrow> real" where
  "round_double x = (if x = 0 then 0 else of_int (round_ties_even (x / ulp x)) * ulp x)"

definition fl :: "real \<Rightarrow> double" where
  "fl x = (if \<bar>round_double x\<bar> < 2 ^ 1024 then Finite (round_double x)
           else if x > 0 then PlusInfinity else MinusInfinity)"

text \<open>
  \<open>a * b\<close> and \<open>a / b\<close> on doubles. A zero divisor is taken to be \<open>+0\<close>.
\<close>

fun d_times :: "double \<Rightarrow> double \<Rightarrow> double" where
  "d_times (Finite a) (Finite b) = fl (a * b)"
| "d_times NotANumber b = NotANumber"
| "d_times a NotANumber = NotANumber"
| "d_times PlusInfinity (Finite b) =
     (if b > 0 then PlusInfinity else if b < 0 then MinusInfinity else NotANumber)"
| "d_times MinusInfinity (Finite b) =
     (if b > 0 then MinusInfinity else if b < 0 then PlusInfinity else NotANumber)"
| "d_times (Finite a) PlusInfinity =
     (if a > 0 then PlusInfinity else if a < 0 then MinusInfinity else NotANumber)"
| "d_times (Finite a) MinusInfinity =
     (if a > 0 then MinusInfinity else if a < 0 then PlusInfinity else NotANumber)"
| "d_times PlusInfinity PlusInfinity = PlusInfinity"
| "d_times PlusInfinity MinusInfinity = MinusInfinity"
| "d_times MinusInfinity PlusInfinity = MinusInfinity"
| "d_times MinusInfinity MinusInfinity = PlusInfinity"

fun d_over :: "double \<Rightarrow> double \<Rightarrow> double" where
  "d_over (Finite a) (Finite b) =
     (if b = 0 then (if a > 0 then PlusInfinity else if a < 0 then MinusInfinity else NotANumber)
      else fl (a / b))"
| "d_over NotANumber b = NotANumber"
| "d_over a NotANumber = NotANumber"
| "d_over PlusInfinity (Finite b) = (if b \<ge> 0 then PlusInfinity else MinusInfinity)"
| "d_over MinusInfinity (Finite b) = (if b \<ge> 0 then MinusInfinity else PlusInfinity)"
| "d_over (Finite a) PlusInfinity = Finite 0"
| "d_over (Finite a) MinusInfinity = Finite 0"
| "d_over PlusInfinity PlusInfinity = NotANumber"
| "d_over PlusInfinity MinusInfinity = NotANumber"
| "d_over MinusInfinity PlusInfinity = NotANumber"
| "d_over MinusInfinity MinusInfinity = NotANumber"

subsection \<open>Percent and kW conversion\<close>

text \<open>
  \<open>Math.round\<close> returns the integer nearest to its argument and, in a tie, the larger
  one, which is \<open>\<lfloor>x + 1/2\<rfloor>\<close> computed exactly; a double of absolute value \<open>2^52\<close> or more
  is an integer already. Infinities and \<open>NaN\<close> are returned as they are.
\<close>

fun Math_round :: "double \<Rightarrow> double" where
  "Math_round (Finite x) = Finite (of_int \<lfloor>x + 1 / 2\<rfloor>)"
| "Math_round x = x"

text \<open>
  \<^verbatim>\<open>_percentToSliderKw(percent) { return Math.round(((percent / 100) * this._inverterMaxOutput) * 2) / 2; }\<close>
  and
  \<^verbatim>\<open>_sliderKwToPercent(kw) { return Math.round((kw / this._inverterMaxOutput) * 100); }\<close>
  The first argument is the field \<open>this._inverterMaxOutput\<close>.
\<close>

definition percentToSliderKw :: "double \<Rightarrow> double \<Rightarrow> double" where
  "percentToSliderKw inverterMaxOutput percent =
     d_over (Math_round (d_times (d_times (d_over percent (Finite 100)) inverterMaxOutput) (Finite 2)))
            (Finite 2)"

definition sliderKwToPercent :: "double \<Rightarrow> double \<Rightarrow> double" where
  "sliderKwToPercent inverterMaxOutput kw =
     Math_round (d_times (d_over kw inverterMaxOutput) (Finite 100))"

text \<open>One round trip: a percent value to the slider's kW step and back to a percent value.\<close>

definition roundTrip :: "double \<Rightarrow> double \<Rightarrow> double" where
  "roundTrip inverterMaxOutput percent =
     sliderKwToPercent inverterMaxOutput (percentToSliderKw inverterMaxOutput percent)"



subsection \<open>Day masks\<close>

text \<open>
  A day selection is a JavaScript object with one boolean per weekday name; it is an
  association list in insertion order. \<open>mask & (1 << i)\<close> works on 32-bit integers, and
  for \<open>i < 7\<close> it reads bit \<open>i\<close> of the mask, as \<open>AND\<close> on \<open>int\<close> does. The parameter
  is called \<open>msk\<close> and the accumulator of \<open>reduce\<close> is called \<open>acc\<close>, since \<open>mask\<close>
  and \<open>sum\<close> are constants of HOL.
\<close>

type_synonym days = "(string \<times> bool) list"

definition dayKeys :: "string list" where
  "dayKeys = [''monday'', ''tuesday'', ''wednesday'', ''thursday'', ''friday'', ''saturday'', ''sunday'']"

text \<open>\<^verbatim>\<open>dayKeys.forEach((day, i) => { days[day] = (mask & (1 << i)) !== 0; })\<close>\<close>

fun getDaysFromMask_forEach :: "int \<Rightarrow> nat \<Rightarrow> string list \<Rightarrow> days \<Rightarrow> days" where
  "getDaysFromMask_forEach msk i [] days = days"
| "getDaysFromMask_forEach msk i (day # rest) days =
     getDaysFromMask_forEach msk (Suc i) rest
       (AList.update day ((msk AND push_bit i 1) \<noteq> 0) days)"

definition getDaysFromMask :: "int \<Rightarrow> days" where
  "getDaysFromMask msk = getDaysFromMask_forEach msk 0 dayKeys []"

text \<open>\<open>days && days[day]\<close>: false for a missing object and for a missing key.\<close>

definition day_selected :: "days option \<Rightarrow> string \<Rightarrow> bool" where
  "day_selected days day =
     (case days of None \<Rightarrow> False
      | Some d \<Rightarrow> (case map_of d day of None \<Rightarrow> False | Some b \<Rightarrow> b))"

text \<open>\<^verbatim>\<open>dayKeys.reduce((sum, day, i) => sum + ((days && days[day]) ? (1 << i) : 0), 0)\<close>\<close>

fun calculateDaymask_reduce :: "days option \<Rightarrow> int \<Rightarrow> nat \<Rightarrow> string list \<Rightarrow> int" where
  "calculateDaymask_reduce days acc i [] = acc"
| "calculateDaymask_reduce days acc i (day # rest) =
     calculateDaymask_reduce days
       (acc + (if day_selected days day then push_bit i 1 else 0)) (Suc i) rest"

definition calculateDaymask :: "days option \<Rightarrow> int" where
  "calculateDaymask days = calculateDaymask_reduce days 0 0 dayKeys"

section \<open>Time strings\<close>

subsection \<open>Numbers that may be NaN\<close>

text \<open>
  The numbers of the time functions, of \<open>parseInt\<close> and of the values written to
  entities are integers or \<open>NaN\<close>. Arithmetic on them propagates \<open>NaN\<close>, and a
  comparison with \<open>NaN\<close> is false.
\<close>

datatype jsnum = Num int | NaN

fun js_mult :: "jsnum \<Rightarrow> jsnum \<Rightarrow> jsnum" where
  "js_mult (Num a) (Num b) = Num (a * b)"
| "js_mult _ _ = NaN"

fun js_plus :: "jsnum \<Rightarrow> jsnum \<Rightarrow> jsnum" where
  "js_plus (Num a) (Num b) = Num (a + b)"
| "js_plus _ _ = NaN"

fun js_ge :: "jsnum \<Rightarrow> jsnum \<Rightarrow> bool" where
  "js_ge (Num a) (Num b) = (a \<ge> b)"
| "js_ge _ _ = False"

subsection \<open>Digits, \<open>String\<close>, \<open>padStart\<close>, \<open>split\<close> and \<open>Number\<close>\<close>

definition isDigit :: "char \<Rightarrow> bool" where
  "isDigit c = (c \<in> set ''0123456789'')"

definition digitValue :: "char \<Rightarrow> int" where
  "digitValue c = int (of_char c) - 48"

definition digitChar :: "nat \<Rightarrow> char" where
  "digitChar n = ''0123456789'' ! n"

text \<open>The decimal numeral of a natural number, as \<open>String(n)\<close> prints it.\<close>

function decimal :: "nat \<Rightarrow> string" where
  "decimal n = (if n < 10 then [digitChar n] else decimal (n div 10) @ [digitChar (n mod 10)])"
  by pat_completeness auto
termination
  by (relation "measure id") auto

definition js_String :: "jsnum \<Rightarrow> string" where
  "js_String x =
     (case x of NaN \<Rightarrow> ''NaN''
      | Num n \<Rightarrow> if n < 0 then CHR ''-'' # decimal (nat (- n)) else decimal (nat n))"

text \<open>\<open>s.padStart(n, c)\<close> for a one-character pad string.\<close>

definition padStart :: "nat \<Rightarrow> char \<Rightarrow> string \<Rightarrow> string" where
  "padStart n c s = replicate (n - length s) c @ s"

text \<open>\<open>s.split(sep)\<close> for a one-character separator: the empty string gives one empty part.\<close>

fun js_split :: "char \<Rightarrow> string \<Rightarrow> string list" where
  "js_split sep [] = [[]]"
| "js_split sep (c # cs) =
     (if c = sep then [] # js_split sep cs
      else (case js_split sep cs of [] \<Rightarrow> [[c]] | p # ps \<Rightarrow> (c # p) # ps))"

text \<open>
  \<open>Number(s)\<close> on the strings the time functions meet: a string of decimal digits is its
  value (leading zeros allowed) and the empty string is 0. Every other string is taken
  to \<open>NaN\<close>; that is what JavaScript does for a string that is no numeric literal, while
  literals in other notations (sign, fraction, exponent, hexadecimal, surrounding white
  space) are outside this model.
\<close>

definition js_Number :: "string \<Rightarrow> jsnum" where
  "js_Number s =
     (if list_all isDigit s then Num (foldl (\<lambda>acc c. 10 * acc + digitValue c) 0 s) else NaN)"

text \<open>
  Array destructuring \<open>const [hours, minutes] = parts\<close>: a missing element is
  \<open>undefined\<close>, which every later use here turns into \<open>NaN\<close>.
\<close>

definition element :: "jsnum list \<Rightarrow> nat \<Rightarrow> jsnum" where
  "element xs i = (if i < length xs then xs ! i else NaN)"

subsection \<open>The strict time pattern and \<open>_timeToMinutes\<close>\<close>

text \<open>
  \<^verbatim>\<open>/^([01]\d|2[0-3]):([0-5]\d)$/.test(s)\<close>. Without the multiline flag \<open>$\<close> matches at the
  end of the input only, and \<open>\d\<close> is an ASCII digit, so exactly five characters match.
\<close>

fun timeRegex_test :: "string \<Rightarrow> bool" where
  "timeRegex_test [h1, h2, c, m1, m2] =
     (((h1 \<in> set ''01'' \<and> isDigit h2) \<or> (h1 = CHR ''2'' \<and> h2 \<in> set ''0123''))
      \<and> c = CHR '':'' \<and> m1 \<in> set ''012345'' \<and> isDigit m2)"
| "timeRegex_test _ = False"

text \<open>
  \<^verbatim>\<open>_timeToMinutes(timeStr) {
    if (!timeStr || !/^([01]\d|2[0-3]):([0-5]\d)$/.test(timeStr)) { return 0; }
    const [hours, minutes] = timeStr.split(':').map(Number);
    return hours * 60 + minutes; }\<close>
  The argument is \<open>None\<close> for \<open>null\<close> or \<open>undefined\<close>.
\<close>

definition timeToMinutes :: "string option \<Rightarrow> jsnum" where
  "timeToMinutes timeStr =
     (case timeStr of None \<Rightarrow> Num 0
      | Some s \<Rightarrow>
          if s = [] \<or> \<not> timeRegex_test s then Num 0
          else (let parts = map js_Number (js_split CHR '':'' s);
                    hours = element parts 0;
                    minutes = element parts 1
                in js_plus (js_mult hours (Num 60)) minutes))"

subsection \<open>The clock and \<open>Date\<close>\<close>

text \<open>
  What \<open>new Date()\<close> shows of the local clock: \<open>getHours()\<close> (0 to 23), \<open>getMinutes()\<close>
  (0 to 59) and \<open>getDay()\<close> (0 is Sunday, 6 is Saturday). The methods that only read the
  clock take this record; \<open>_calculateEndTime\<close>, which computes with dates, takes the host
  of its dates (below). Every \<open>new Date()\<close> is a reading of its own.
\<close>

record clock =
  getHours :: nat
  getMinutes :: nat
  getDay :: nat

text \<open>
  A \<open>Date\<close> object holds a time value: the milliseconds from the epoch (1 January 1970
  UTC), an integer of absolute value at most 8.64e15, or \<open>NaN\<close> for an invalid date
  (\<open>None\<close> here). \<open>TimeClip\<close> is the check every constructor and setter ends with.
\<close>

type_synonym date = "int option"

definition TimeClip :: "int \<Rightarrow> date" where
  "TimeClip t = (if \<bar>t\<bar> > 8640000000000000 then None else Some t)"

text \<open>
  What a \<open>Date\<close> computes depends on its host: \<open>now_ms\<close> is the time value that
  \<open>new Date()\<close> reads from the system clock, and \<open>LocalTZA t isUTC\<close> is the offset of
  local time from UTC in milliseconds, for the UTC time value \<open>t\<close> when \<open>isUTC\<close> is true
  and for the local time value \<open>t\<close> otherwise; around a change of the offset (daylight
  saving time) the two differ. \<open>LocalTime\<close> and \<open>UTC\<close> are the two conversions of the
  language definition.
\<close>

record date_host =
  now_ms :: int
  LocalTZA :: "int \<Rightarrow> bool \<Rightarrow> int"

definition LocalTime :: "date_host \<Rightarrow> int \<Rightarrow> int" where
  "LocalTime host t = t + LocalTZA host t True"

definition UTC :: "date_host \<Rightarrow> int \<Rightarrow> int" where
  "UTC host t = t - LocalTZA host t False"

text \<open>\<open>new Date()\<close>\<close>

definition Date_now :: "date_host \<Rightarrow> date" where
  "Date_now host = TimeClip (now_ms host)"

text \<open>
  \<open>d.setHours(hours, minutes, 0, 0)\<close>: the local day of \<open>d\<close> stays, the time within the
  day becomes \<open>hours * msPerHour + minutes * msPerMinute\<close> (\<open>MakeTime\<close>, \<open>MakeDate\<close>), and
  the local time value so made is taken back to UTC and clipped. An argument that is
  \<open>NaN\<close> makes the date invalid.
\<close>

definition Date_setHours :: "date_host \<Rightarrow> date \<Rightarrow> jsnum \<Rightarrow> jsnum \<Rightarrow> date" where
  "Date_setHours host d hours minutes =
     (case (d, hours, minutes) of
        (Some t, Num h, Num m) \<Rightarrow>
          let day = LocalTime host t div 86400000;
              time = h * 3600000 + m * 60000;
              local_date = day * 86400000 + time
          in TimeClip (UTC host local_date)
      | _ \<Rightarrow> None)"

definition Date_getTime :: "date \<Rightarrow> jsnum" where
  "Date_getTime d = (case d of None \<Rightarrow> NaN | Some t \<Rightarrow> Num t)"

text \<open>\<open>new Date(t)\<close> for a number \<open>t\<close>\<close>

definition Date_new :: "jsnum \<Rightarrow> date" where
  "Date_new t = (case t of NaN \<Rightarrow> None | Num ms \<Rightarrow> TimeClip ms)"

text \<open>\<open>d.getHours()\<close> and \<open>d.getMinutes()\<close>: hour and minute of the local time of \<open>d\<close>.\<close>

definition Date_getHours :: "date_host \<Rightarrow> date \<Rightarrow> jsnum" where
  "Date_getHours host d =
     (case d of None \<Rightarrow> NaN | Some t \<Rightarrow> Num ((LocalTime host t div 3600000) mod 24))"

definition Date_getMinutes :: "date_host \<Rightarrow> date \<Rightarrow> jsnum" where
  "Date_getMinutes host d =
     (case d of None \<Rightarrow> NaN | Some t \<Rightarrow> Num ((LocalTime host t div 60000) mod 60))"

text \<open>
  \<^verbatim>\<open>_getCurrentTime() {
    const now = new Date();
    const hours = String(now.getHours()).padStart(2, '0');
    const minutes = String(now.getMinutes()).padStart(2, '0');
    return `${hours}:${minutes}`; }\<close>
\<close>

definition getCurrentTime :: "clock \<Rightarrow> string" where
  "getCurrentTime now =
     (let hours = padStart 2 CHR ''0'' (js_String (Num (int (getHours now))));
          minutes = padStart 2 CHR ''0'' (js_String (Num (int (getMinutes now))))
      in hours @ '':'' @ minutes)"

text \<open>
  \<^verbatim>\<open>_calculateEndTime(startTime, durationMinutes) {
    const [hours, minutes] = startTime.split(':').map(Number);
    const startDate = new Date();
    startDate.setHours(hours, minutes, 0, 0);
    const endDate = new Date(startDate.getTime() + (durationMinutes * 60000));
    const endHours = String(endDate.getHours()).padStart(2, '0');
    const endMinutes = String(endDate.getMinutes()).padStart(2, '0');
    return `${endHours}:${endMinutes}`; }\<close>
\<close>

definition calculateEndTime :: "date_host \<Rightarrow> string \<Rightarrow> jsnum \<Rightarrow> string" where
  "calculateEndTime host startTime durationMinutes =
     (let parts = map js_Number (js_split CHR '':'' startTime);
          hours = element parts 0;
          minutes = element parts 1;
          startDate = Date_now host;
          startDate = Date_setHours host startDate hours minutes;
          endDate = Date_new (js_plus (Date_getTime startDate) (js_mult durationMinutes (Num 60000)));
          endHours = padStart 2 CHR ''0'' (js_String (Date_getHours host endDate));
          endMinutes = padStart 2 CHR ''0'' (js_String (Date_getMinutes host endDate))
      in endHours @ '':'' @ endMinutes)"

text \<open>
  The condition under which the end time is the start time plus the duration on the
  face of the clock, for a start \<open>h:m\<close> and a duration of \<open>d\<close> minutes: the time value
  read from the system clock, the start instant (\<open>h:m\<close> of the local day of that
  reading) and the end instant are inside the range of \<open>Date\<close>, and local time at the
  end instant has the offset with which the start was taken to UTC (no daylight-saving
  or other change of the offset in between).
\<close>

definition start_local :: "date_host \<Rightarrow> nat \<Rightarrow> nat \<Rightarrow> int" where
  "start_local host h m =
     (LocalTime host (now_ms host) div 86400000) * 86400000 + (int h * 3600000 + int m * 60000)"

definition end_instant :: "date_host \<Rightarrow> nat \<Rightarrow> nat \<Rightarrow> int \<Rightarrow> int" where
  "end_instant host h m d = UTC host (start_local host h m) + d * 60000"

definition steady_interval :: "date_host \<Rightarrow> nat \<Rightarrow> nat \<Rightarrow> int \<Rightarrow> bool" where
  "steady_interval host h m d =
     (\<bar>now_ms host\<bar> \<le> 8640000000000000
      \<and> \<bar>UTC host (start_local host h m)\<bar> \<le> 8640000000000000
      \<and> \<bar>end_instant host h m d\<bar> \<le> 8640000000000000
      \<and> LocalTZA host (end_instant host h m d) True = LocalTZA host (start_local host h m) False)"


text \<open>
  The time of day \<open>h:m\<close> written as zero-padded \<open>HH:MM\<close>; the theorems use it to say
  what a well-formed time string is and what the end time should be.
\<close>

definition hhmm :: "nat \<Rightarrow> nat \<Rightarrow> string" where
  "hhmm h m = [digitChar (h div 10), digitChar (h mod 10), CHR '':'',
               digitChar (m div 10), digitChar (m mod 10)]"

section \<open>Configuration\<close>

subsection \<open>Configuration values\<close>

text \<open>
  A Lovelace configuration is YAML, so its values are JSON-like: \<open>null\<close>, booleans,
  numbers, strings, arrays and objects. An object is an association list in insertion
  order; assignment \<open>o[key] = v\<close> is \<open>AList.update\<close>, which replaces the value of an
  existing key in place and appends a new key. \<open>undefined\<close> is no value of this type:
  reading a property gives a \<open>jsv option\<close>, and \<open>None\<close> is \<open>undefined\<close>. \<open>NaN\<close> and the
  infinities are not configuration values.
\<close>

datatype jsv =
    JNull
  | JBool bool
  | JNum real
  | JStr string
  | JArr "jsv list"
  | JObj "(string \<times> jsv) list"

text \<open>Truthiness, as \<open>!x\<close>, \<open>x || y\<close> and \<open>x && y\<close> see it.\<close>

fun truthy :: "jsv option \<Rightarrow> bool" where
  "truthy None = False"
| "truthy (Some JNull) = False"
| "truthy (Some (JBool b)) = b"
| "truthy (Some (JNum x)) = (x \<noteq> 0)"
| "truthy (Some (JStr s)) = (s \<noteq> [])"
| "truthy (Some (JArr xs)) = True"
| "truthy (Some (JObj kvs)) = True"

text \<open>\<open>a || b\<close> where \<open>b\<close> is a value.\<close>

definition js_or :: "jsv option \<Rightarrow> jsv \<Rightarrow> jsv" where
  "js_or a b = (case a of None \<Rightarrow> b | Some v \<Rightarrow> if truthy (Some v) then v else b)"

text \<open>
  The property read \<open>x.key\<close> for the keys of a configuration: the value of the key in an
  object, \<open>undefined\<close> when the object has no such key and when \<open>x\<close> is a primitive
  value or an array.
\<close>

fun js_get :: "jsv option \<Rightarrow> string \<Rightarrow> jsv option" where
  "js_get (Some (JObj kvs)) key = map_of kvs key"
| "js_get _ key = None"

subsection \<open>\<open>_deepMerge\<close>\<close>

text \<open>
  The objects of the card are ordinary objects: their prototype is \<open>Object.prototype\<close>,
  so a property read \<open>o[key]\<close> that finds no own property finds what \<open>Object.prototype\<close>
  has under that name. These are its property names; all of them are functions, except
  the accessor \<open>__proto__\<close>, whose getter returns the prototype of the object and whose
  setter replaces it.
\<close>

definition Object_prototype :: "string list" where
  "Object_prototype =
     [''constructor'', ''__defineGetter__'', ''__defineSetter__'', ''hasOwnProperty'',
      ''__lookupGetter__'', ''__lookupSetter__'', ''isPrototypeOf'', ''propertyIsEnumerable'',
      ''toString'', ''valueOf'', ''__proto__'', ''toLocaleString'']"

text \<open>
  The assignment \<open>o['__proto__'] = v\<close> on an object without an own property of that name
  calls the setter: an object, an array or \<open>null\<close> becomes the prototype of \<open>o\<close>, every
  other value is ignored. In both cases \<open>o\<close> gets no own property.
\<close>

fun replaces_prototype :: "jsv \<Rightarrow> bool" where
  "replaces_prototype (JObj kvs) = True"
| "replaces_prototype (JArr xs) = True"
| "replaces_prototype JNull = True"
| "replaces_prototype _ = False"

text \<open>
  \<^verbatim>\<open>_deepMerge(target, source) {
      const isObject = (obj) => obj && typeof obj === 'object' && !Array.isArray(obj);
      if (!isObject(target) || !isObject(source)) {
          return source !== null && source !== undefined ? source : target;
      }
      const output = { ...target };
      Object.keys(source).forEach(key => {
          const targetValue = output[key];
          const sourceValue = source[key];
          if (Array.isArray(targetValue) && Array.isArray(sourceValue)) {
              output[key] = sourceValue; // Array replacement
          } else if (isObject(targetValue) && isObject(sourceValue)) {
              output[key] = this._deepMerge(targetValue, sourceValue);
          } else {
              output[key] = sourceValue;
          }
      });
       Object.keys(target).forEach(key => { // Ensure keys only in target are kept
            if (source[key] === undefined) {
                output[key] = target[key];
            }
       });
      return output;
  }\<close>
  The two \<open>forEach\<close> loops are folds over the entries of \<open>source\<close> and of \<open>target\<close>;
  an entry \<open>(key, v)\<close> of an object stands for \<open>key\<close> and \<open>object[key]\<close>, the keys of a
  JavaScript object being distinct. The first equation is the case where both arguments
  are objects, the second one is the early return.

  In the first loop, a key other than \<open>__proto__\<close> that \<open>output\<close> does not have as own
  property reads as \<open>undefined\<close> or as a function of \<open>Object.prototype\<close>, which is neither
  an array nor an object for \<open>isObject\<close>: the last branch assigns, and the assignment
  creates the own property. For the key \<open>__proto__\<close>, when \<open>output\<close> has no own property
  of that name, \<open>targetValue\<close> is the prototype and every branch ends in the setter: a
  boolean, a number or a string is ignored and \<open>output\<close> stays as it is; an object, an
  array or \<open>null\<close> replaces the prototype of \<open>output\<close>. What \<open>output\<close> inherits from then
  on is not followed here: the result of such a merge is \<open>None\<close>, and so is the result of
  a merge that contains one. When \<open>output\<close> has the own property \<open>__proto__\<close> (copied from
  \<open>target\<close> by the spread), the key is read and assigned like every other key.

  In the second loop \<open>source[key]\<close> is \<open>undefined\<close> when \<open>source\<close> has no own property
  \<open>key\<close> and \<open>Object.prototype\<close> has none either.
\<close>

fun deepMerge :: "jsv \<Rightarrow> jsv \<Rightarrow> jsv option" where
  "deepMerge (JObj target) (JObj source) =
     (let output = Some target;
          output = fold (\<lambda>(key, sourceValue) output.
                     (case output of None \<Rightarrow> None
                      | Some out \<Rightarrow>
                          if key = ''__proto__'' \<and> map_of out key = None then
                            (if replaces_prototype sourceValue then None else Some out)
                          else
                            (case (map_of out key, sourceValue) of
                               (Some (JArr tv), JArr sv) \<Rightarrow> Some (AList.update key sourceValue out)
                             | (Some (JObj tv), JObj sv) \<Rightarrow>
                                 (case deepMerge (JObj tv) sourceValue of None \<Rightarrow> None
                                  | Some merged \<Rightarrow> Some (AList.update key merged out))
                             | _ \<Rightarrow> Some (AList.update key sourceValue out)))) source output;
          output = (case output of None \<Rightarrow> None
                    | Some out \<Rightarrow>
                        Some (fold (\<lambda>(key, targetValue) output.
                                if map_of source key = None \<and> key \<notin> set Object_prototype
                                then AList.update key targetValue output
                                else output) target out))
      in (case output of None \<Rightarrow> None | Some out \<Rightarrow> Some (JObj out)))"
| "deepMerge target source = Some (if source \<noteq> JNull then source else target)"

text \<open>
  What the first loop stores under a key: the recursive merge when the value already
  there and the override value are both objects, the override value otherwise.
\<close>

definition mergedValue :: "jsv option \<Rightarrow> jsv \<Rightarrow> jsv option" where
  "mergedValue targetValue sourceValue =
     (case (targetValue, sourceValue) of
        (Some (JObj tv), JObj sv) \<Rightarrow> deepMerge (JObj tv) (JObj sv)
      | _ \<Rightarrow> Some sourceValue)"

text \<open>The bodies of the two loops, named for the proofs.\<close>

definition source_entry ::
  "string \<times> jsv \<Rightarrow> (string \<times> jsv) list option \<Rightarrow> (string \<times> jsv) list option" where
  "source_entry = (\<lambda>(key, sourceValue) output.
     (case output of None \<Rightarrow> None
      | Some out \<Rightarrow>
          if key = ''__proto__'' \<and> map_of out key = None then
            (if replaces_prototype sourceValue then None else Some out)
          else
            (case mergedValue (map_of out key) sourceValue of None \<Rightarrow> None
             | Some merged \<Rightarrow> Some (AList.update key merged out))))"

definition target_entry ::
  "(string \<times> jsv) list \<Rightarrow> string \<times> jsv \<Rightarrow> (string \<times> jsv) list \<Rightarrow> (string \<times> jsv) list" where
  "target_entry source = (\<lambda>(key, targetValue) output.
     if map_of source key = None \<and> key \<notin> set Object_prototype
     then AList.update key targetValue output else output)"

text \<open>
  No object inside the value, at any depth of nested objects, has an own key
  \<open>__proto__\<close>. (Objects inside arrays are never merged.)
\<close>

fun proto_free :: "jsv \<Rightarrow> bool" and proto_free_entries :: "(string \<times> jsv) list \<Rightarrow> bool" where
  "proto_free (JObj kvs) = proto_free_entries kvs"
| "proto_free (JArr xs) = True"
| "proto_free JNull = True"
| "proto_free (JBool b) = True"
| "proto_free (JNum x) = True"
| "proto_free (JStr s) = True"
| "proto_free_entries [] = True"
| "proto_free_entries ((key, v) # kvs) =
     (key \<noteq> ''__proto__'' \<and> proto_free v \<and> proto_free_entries kvs)"

subsection \<open>\<open>setConfig\<close>\<close>

definition DEFAULT_ENTITIES :: jsv where
  "DEFAULT_ENTITIES = JObj
     [(''chargeStart'', JStr ''text.saj_charge_start_time_time''),
      (''chargeEnd'', JStr ''text.saj_charge_end_time_time''),
      (''chargeDayMask'', JStr ''number.saj_charge_day_mask_input''),
      (''chargePower'', JStr ''number.saj_battery_charge_power_limit_input''),
      (''chargingSwitch'', JStr ''switch.saj_charging_control''),
      (''chargePowerSensor'', JStr ''sensor.saj_charge_power_percent''),
      (''batteryChargePowerLimit'', JStr ''sensor.saj_battery_charge_power_limit''),
      (''dischargeStart'', JStr ''text.saj_discharge1_start_time_time''),
      (''dischargeEnd'', JStr ''text.saj_discharge1_end_time_time''),
      (''dischargePower'', JStr ''number.saj_discharge1_power_percent_input''),
      (''dischargeDayMask'', JStr ''number.saj_discharge1_day_mask_input''),
      (''dischargingSwitch'', JStr ''switch.saj_discharging_control''),
      (''dischargePowerSensor'', JStr ''sensor.saj_discharge_power_percent'')]"

text \<open>
  The fields of \<open>this\<close> that \<open>setConfig\<close> reads and writes, with the values JavaScript
  stores in them. \<open>this_hass_set\<close> says that \<open>this._hass\<close> is not \<open>null\<close>; \<open>this.shadowRoot\<close>
  is set by the constructor and never removed. \<open>renderCard_calls\<close> counts the calls of
  \<open>this._renderCard()\<close>. \<open>this_entities\<close> is \<open>None\<close> when \<open>this._entities\<close> is the result of
  a merge that has replaced a prototype.
\<close>

record card_fields =
  this_mode :: jsv
  this_inverterMaxOutput :: jsv
  this_entities :: "jsv option"
  this_debug :: bool
  this_hass_set :: bool
  renderCard_calls :: nat

text \<open>The state the constructor leaves.\<close>

definition constructed :: card_fields where
  "constructed = \<lparr>this_mode = JStr ''both'', this_inverterMaxOutput = JNum 5,
     this_entities = Some DEFAULT_ENTITIES, this_debug = False, this_hass_set = False,
     renderCard_calls = 0\<rparr>"

text \<open>The three \<open>throw new Error(\<dots>)\<close> of \<open>setConfig\<close>; the offending value is in the message.\<close>

datatype config_error =
    Invalid_configuration
  | Invalid_mode jsv
  | Invalid_maxOutput jsv

text \<open>\<open>typeof x !== 'number' || x <= 0\<close>\<close>

fun not_positive_number :: "jsv \<Rightarrow> bool" where
  "not_positive_number (JNum x) = (x \<le> 0)"
| "not_positive_number _ = True"

text \<open>
  \<^verbatim>\<open>setConfig(config) {
    if (!config) { throw new Error('Invalid configuration'); }
    this._mode = config.mode || 'both';
    if (!['charge','discharge','both'].includes(this._mode)) {
      throw new Error(`Invalid mode: ...`); }
    this._inverterMaxOutput = config.maxOutput || 5.0;
    if (typeof this._inverterMaxOutput !== 'number' || this._inverterMaxOutput <= 0) {
      throw new Error(`Invalid maxOutput: ...`); }
    this._entities = this._deepMerge(
        JSON.parse(JSON.stringify(SajH2InverterCardTimer.DEFAULT_ENTITIES)),
        config.entities || {});
    this._debug = config.debug === true;
    if (this.shadowRoot && this._hass) { this._renderCard(); }
  }\<close>
  The result is the error thrown, if any, and the fields as the call leaves them: an
  assignment made before a \<open>throw\<close> stays.
\<close>

definition setConfig :: "jsv option \<Rightarrow> card_fields \<Rightarrow> config_error option \<times> card_fields" where
  "setConfig config this =
     (if \<not> truthy config then (Some Invalid_configuration, this)
      else
        let this = this\<lparr>this_mode := js_or (js_get config ''mode'') (JStr ''both'')\<rparr>
        in if this_mode this \<notin> set [JStr ''charge'', JStr ''discharge'', JStr ''both'']
           then (Some (Invalid_mode (this_mode this)), this)
           else
             let this = this\<lparr>this_inverterMaxOutput :=
                              js_or (js_get config ''maxOutput'') (JNum 5)\<rparr>
             in if not_positive_number (this_inverterMaxOutput this)
                then (Some (Invalid_maxOutput (this_inverterMaxOutput this)), this)
                else
                  let this = this\<lparr>this_entities :=
                                   deepMerge DEFAULT_ENTITIES
                                     (js_or (js_get config ''entities'') (JObj []))\<rparr>;
                      this = this\<lparr>this_debug := (js_get config ''debug'' = Some (JBool True))\<rparr>
                  in (None, if this_hass_set this
                            then this\<lparr>renderCard_calls := Suc (renderCard_calls this)\<rparr>
                            else this))"

section \<open>The card and its host\<close>

subsection \<open>The state pushed by Home Assistant\<close>

text \<open>
  An entry of \<open>hass.states\<close> is an object with the fields \<open>state\<close> (a string),
  \<open>attributes\<close>, \<open>last_changed\<close> and \<open>last_updated\<close>. \<open>obj_ref\<close> is the identity of the
  JavaScript object, which is what \<open>oldState !== newState\<close> compares. Attribute values
  are primitive values, for which \<open>!==\<close> is inequality of the values.
\<close>

datatype js_prim = PNull | PBool bool | PNum real | PStr string

record hass_entity =
  obj_ref :: nat
  state :: string
  attributes :: "(string \<times> js_prim) list"
  last_changed :: string
  last_updated :: string

text \<open>\<open>e?.attributes?.pending_write\<close>, with \<open>None\<close> for \<open>undefined\<close>.\<close>

definition pending_write :: "hass_entity \<Rightarrow> js_prim option" where
  "pending_write e = map_of (attributes e) ''pending_write''"

text \<open>The \<open>hass\<close> object: \<open>hass.states[id]\<close> is \<open>map_of (states hass) id\<close>.\<close>

record hass_object =
  states :: "(string \<times> hass_entity) list"

subsection \<open>The fields of the card\<close>

text \<open>
  \<open>this._entities\<close> after a configuration whose entity names are strings, as the
  defaults are: one entity identifier for each of the thirteen roles.
\<close>

record entity_ids =
  chargeStart :: string
  chargeEnd :: string
  chargeDayMask :: string
  chargePower :: string
  chargingSwitch :: string
  chargePowerSensor :: string
  batteryChargePowerLimit :: string
  dischargeStart :: string
  dischargeEnd :: string
  dischargePower :: string
  dischargeDayMask :: string
  dischargingSwitch :: string
  dischargePowerSensor :: string

definition default_entity_ids :: entity_ids where
  "default_entity_ids = \<lparr>
     chargeStart = ''text.saj_charge_start_time_time'',
     chargeEnd = ''text.saj_charge_end_time_time'',
     chargeDayMask = ''number.saj_charge_day_mask_input'',
     chargePower = ''number.saj_battery_charge_power_limit_input'',
     chargingSwitch = ''switch.saj_charging_control'',
     chargePowerSensor = ''sensor.saj_charge_power_percent'',
     batteryChargePowerLimit = ''sensor.saj_battery_charge_power_limit'',
     dischargeStart = ''text.saj_discharge1_start_time_time'',
     dischargeEnd = ''text.saj_discharge1_end_time_time'',
     dischargePower = ''number.saj_discharge1_power_percent_input'',
     dischargeDayMask = ''number.saj_discharge1_day_mask_input'',
     dischargingSwitch = ''switch.saj_discharging_control'',
     dischargePowerSensor = ''sensor.saj_discharge_power_percent''\<rparr>"

text \<open>
  The card as its event handlers see it after a successful \<open>setConfig\<close>: \<open>this._mode\<close>
  (one of the three mode strings), \<open>this._inverterMaxOutput\<close> (a positive number, here the
  number as the configuration writes it; the field holds the double it denotes, \<open>fl\<close> of
  it), \<open>this._entities\<close> and \<open>this._hass\<close> (\<open>None\<close> while it is \<open>null\<close>).
\<close>

record card =
  mode :: string
  inverterMaxOutput :: real
  entities :: entity_ids
  hass :: "hass_object option"

subsection \<open>\<open>_shouldUpdate\<close>\<close>

text \<open>\<open>[...new Set(ids)]\<close>: the first occurrence of every element, in order.\<close>

fun Set_spread :: "string list \<Rightarrow> string list \<Rightarrow> string list" where
  "Set_spread seen [] = []"
| "Set_spread seen (x # xs) =
     (if x \<in> set seen then Set_spread seen xs else x # Set_spread (x # seen) xs)"

text \<open>
  \<^verbatim>\<open>const relevantEntityIds = [];
  if (this._mode !== 'discharge') { relevantEntityIds.push(
      this._entities.chargeStart, this._entities.chargeEnd,
      this._entities.chargeDayMask, this._entities.chargePower,
      this._entities.chargingSwitch, this._entities.chargePowerSensor,
      this._entities.batteryChargePowerLimit); }
  if (this._mode !== 'charge') { relevantEntityIds.push(
      this._entities.dischargeStart, this._entities.dischargeEnd,
      this._entities.dischargeDayMask, this._entities.dischargePower,
      this._entities.dischargingSwitch, this._entities.dischargePowerSensor); }
  const uniqueIds = [...new Set(relevantEntityIds)].filter(Boolean);\<close>
\<close>

definition relevantEntityIds :: "card \<Rightarrow> string list" where
  "relevantEntityIds this =
     (if mode this \<noteq> ''discharge''
      then [chargeStart (entities this), chargeEnd (entities this),
            chargeDayMask (entities this), chargePower (entities this),
            chargingSwitch (entities this), chargePowerSensor (entities this),
            batteryChargePowerLimit (entities this)]
      else [])
     @ (if mode this \<noteq> ''charge''
        then [dischargeStart (entities this), dischargeEnd (entities this),
              dischargeDayMask (entities this), dischargePower (entities this),
              dischargingSwitch (entities this), dischargePowerSensor (entities this)]
        else [])"

definition uniqueIds :: "card \<Rightarrow> string list" where
  "uniqueIds this = filter (\<lambda>eid. eid \<noteq> []) (Set_spread [] (relevantEntityIds this))"

text \<open>
  The body of the loop for one identifier; \<open>True\<close> is \<open>return true\<close>.
  \<^verbatim>\<open>if (oldState !== newState) {
      if (!oldState || !newState) { return true; }
      if (oldState.state !== newState.state) { return true; }
      if (oldState?.attributes?.pending_write !== newState?.attributes?.pending_write) { return true; }
      if (oldState.last_changed !== newState.last_changed
          || oldState.last_updated !== newState.last_updated) { return true; }
  }\<close>
\<close>

fun entity_changed :: "hass_entity option \<Rightarrow> hass_entity option \<Rightarrow> bool" where
  "entity_changed None None = False"
| "entity_changed None (Some newState) = True"
| "entity_changed (Some oldState) None = True"
| "entity_changed (Some oldState) (Some newState) =
     (if obj_ref oldState \<noteq> obj_ref newState then
        (if state oldState \<noteq> state newState then True
         else if pending_write oldState \<noteq> pending_write newState then True
         else if last_changed oldState \<noteq> last_changed newState
                 \<or> last_updated oldState \<noteq> last_updated newState then True
         else False)
      else False)"

text \<open>
  \<open>for (const id of uniqueIds) { \<dots> }  return false;\<close> The loop variable is called
  \<open>eid\<close>, since \<open>id\<close> is a constant of HOL.
\<close>

fun shouldUpdate_for :: "hass_object \<Rightarrow> hass_object \<Rightarrow> string list \<Rightarrow> bool" where
  "shouldUpdate_for oldHass newHass [] = False"
| "shouldUpdate_for oldHass newHass (eid # ids) =
     (if entity_changed (map_of (states oldHass) eid) (map_of (states newHass) eid) then True
      else shouldUpdate_for oldHass newHass ids)"

text \<open>\<open>_shouldUpdate(newHass) { if (!this._hass) return true; \<dots> }\<close>\<close>

definition shouldUpdate :: "card \<Rightarrow> hass_object \<Rightarrow> bool" where
  "shouldUpdate this newHass =
     (case hass this of None \<Rightarrow> True
      | Some oldHass \<Rightarrow> shouldUpdate_for oldHass newHass (uniqueIds this))"

text \<open>
  Two entries of a snapshot pair do not differ in what the refresh decision looks at:
  both are absent, or both are present with the same state, pending-write attribute
  and timestamps.
\<close>

fun same_relevant :: "hass_entity option \<Rightarrow> hass_entity option \<Rightarrow> bool" where
  "same_relevant None None = True"
| "same_relevant (Some a) (Some b) =
     (state a = state b \<and> pending_write a = pending_write b
      \<and> last_changed a = last_changed b \<and> last_updated a = last_updated b)"
| "same_relevant _ _ = False"

subsection \<open>Service calls\<close>

text \<open>
  A call \<open>hass.callService(domain, service, { entity_id, value })\<close>; \<open>val\<close> is \<open>None\<close>
  when the service data has no \<open>value\<close>. Every function below returns the calls it
  makes, in order. A value is a string or a number; the numbers written are integers,
  \<open>NaN\<close> or an infinity (\<open>Infinite True\<close> is plus infinity).
\<close>

datatype service_value = Text string | Number jsnum | Infinite bool

record service_call =
  domain :: string
  service :: string
  entity_id :: string
  val :: "service_value option"




subsection \<open>\<open>_checkTimerExpiration\<close>\<close>

text \<open>
  \<^verbatim>\<open>_checkTimerExpiration() {
    if (!this._hass) return;
    const currentTime = this._getCurrentTime();
    const currentTimeMinutes = this._timeToMinutes(currentTime);
    if (this._mode !== 'discharge') {
      const chargingSwitch = this._hass.states[this._entities.chargingSwitch];
      const chargeEndTime = this._hass.states[this._entities.chargeEnd];
      if (chargingSwitch?.state === 'on' && chargeEndTime?.state) {
        const endTimeMinutes = this._timeToMinutes(chargeEndTime.state);
        if (currentTimeMinutes >= endTimeMinutes) {
          this._hass.callService('switch', 'turn_off', { entity_id: this._entities.chargingSwitch });
        }
      }
    }
    if (this._mode !== 'charge') { (the same with dischargingSwitch and dischargeEnd) }
  }\<close>
  \<open>chargeEndTime?.state\<close> is truthy when the entity is present and its state is not the
  empty string.
\<close>

definition checkTimerExpiration :: "card \<Rightarrow> clock \<Rightarrow> service_call list" where
  "checkTimerExpiration this now =
     (case hass this of None \<Rightarrow> []
      | Some h \<Rightarrow>
          let currentTime = getCurrentTime now;
              currentTimeMinutes = timeToMinutes (Some currentTime)
          in (if mode this \<noteq> ''discharge'' then
                (case (map_of (states h) (chargingSwitch (entities this)),
                       map_of (states h) (chargeEnd (entities this))) of
                   (Some chargingSwitch_state, Some chargeEndTime) \<Rightarrow>
                     if state chargingSwitch_state = ''on'' \<and> state chargeEndTime \<noteq> [] then
                       (let endTimeMinutes = timeToMinutes (Some (state chargeEndTime))
                        in if js_ge currentTimeMinutes endTimeMinutes
                           then [\<lparr>domain = ''switch'', service = ''turn_off'',
                                   entity_id = chargingSwitch (entities this), val = None\<rparr>]
                           else [])
                     else []
                 | _ \<Rightarrow> [])
              else [])
             @ (if mode this \<noteq> ''charge'' then
                  (case (map_of (states h) (dischargingSwitch (entities this)),
                         map_of (states h) (dischargeEnd (entities this))) of
                     (Some dischargingSwitch_state, Some dischargeEndTime) \<Rightarrow>
                       if state dischargingSwitch_state = ''on'' \<and> state dischargeEndTime \<noteq> [] then
                         (let endTimeMinutes = timeToMinutes (Some (state dischargeEndTime))
                          in if js_ge currentTimeMinutes endTimeMinutes
                             then [\<lparr>domain = ''switch'', service = ''turn_off'',
                                     entity_id = dischargingSwitch (entities this), val = None\<rparr>]
                             else [])
                       else []
                   | _ \<Rightarrow> [])
                else []))"

text \<open>
  The condition under which one block of \<open>_checkTimerExpiration\<close> makes its call, for
  the switch and end-time entities of a direction and the current time in minutes.
\<close>

definition timer_expired :: "hass_object \<Rightarrow> clock \<Rightarrow> string \<Rightarrow> string \<Rightarrow> bool" where
  "timer_expired h now switch_id end_id =
     (case (map_of (states h) switch_id, map_of (states h) end_id) of
        (Some sw, Some en) \<Rightarrow>
          state sw = ''on'' \<and> state en \<noteq> []
          \<and> js_ge (Num (int (getHours now * 60 + getMinutes now))) (timeToMinutes (Some (state en)))
      | _ \<Rightarrow> False)"

subsection \<open>The Enable buttons\<close>







subsection \<open>Example snapshots\<close>

text \<open>Entities and cards used in the closed examples of the theorems.\<close>

definition entity_at :: "nat \<Rightarrow> string \<Rightarrow> hass_entity" where
  "entity_at r s = \<lparr>obj_ref = r, state = s, attributes = [],
                     last_changed = ''2025-01-01T10:00:00'', last_updated = ''2025-01-01T10:00:00''\<rparr>"

definition card_with :: "(string \<times> hass_entity) list \<Rightarrow> card" where
  "card_with es = \<lparr>mode = ''both'', inverterMaxOutput = 5, entities = default_entity_ids,
                    hass = Some \<lparr>states = es\<rparr>\<rparr>"

text \<open>
  Hosts used in the closed examples: noon of 1 January 2025 on a host whose local time
  is UTC; 01:00 local time of 30 March 2025 in the zone of Berlin, where at 01:00 UTC
  of that day the offset goes from one hour to two; 22:00 local time of 6 September
  2025 in the zone of Santiago, where at 04:00 UTC of the next day the offset goes from
  minus four hours to minus three. A local time that a change skips is read with the
  offset before the change.
\<close>

definition host_utc :: date_host where
  "host_utc = \<lparr>now_ms = 1735732800000, LocalTZA = (\<lambda>t isUTC. 0)\<rparr>"

definition host_berlin_dst :: date_host where
  "host_berlin_dst = \<lparr>now_ms = 1743292800000,
     LocalTZA = (\<lambda>t isUTC. if t < (if isUTC then 1743296400000 else 1743303600000)
                            then 3600000 else 7200000)\<rparr>"

definition host_santiago_dst :: date_host where
  "host_santiago_dst = \<lparr>now_ms = 1757210400000,
     LocalTZA = (\<lambda>t isUTC. if t < (if isUTC then 1757217600000 else 1757206800000)
                            then - 14400000 else - 10800000)\<rparr>"

section \<open>Properties\<close>



subsection \<open>Percent and kW round trip\<close>



























lemma round_double_exact:
  assumes "2 powi e \<le> \<bar>x\<bar>" "\<bar>x\<bar> < 2 powi (e + 1)" "- 1022 \<le> e"
    and "round_ties_even (x / 2 powi (e - 52)) = n"
  shows "round_double x = of_int n * 2 powi (e - 52)"
proof -
  have pos: "0 < \<bar>x\<bar>"
  proof -
    have "(0::real) < 2 powi e" by simp
    with assms(1) show ?thesis by linarith
  qed
  have a: "(2::real) powr (of_int e) = 2 powi e"
    by (simp add: powr_real_of_int')
  have b: "(2::real) powr (of_int e + 1) = 2 powi (e + 1)"
    using powr_real_of_int' [of "2::real" "e + 1"] by simp
  have "2 powr (of_int e) \<le> \<bar>x\<bar> \<and> \<bar>x\<bar> < 2 powr (of_int e + 1)"
    unfolding a b using assms(1,2) by simp
  then have "\<lfloor>log 2 \<bar>x\<bar>\<rfloor> = e"
    using pos by (subst floor_log_eq_powr_iff) simp_all
  then have "ulp x = 2 powi (e - 52)"
    using assms(3) by (simp add: ulp_def max_def)
  moreover have "x \<noteq> 0"
    using pos by auto
  ultimately show ?thesis
    by (simp add: round_double_def assms(4))
qed

lemma fl_exact:
  assumes "2 powi e \<le> \<bar>x\<bar>" "\<bar>x\<bar> < 2 powi (e + 1)" "- 1022 \<le> e"
    and "round_ties_even (x / 2 powi (e - 52)) = n"
    and "\<bar>of_int n * 2 powi (e - 52)\<bar> < (2::real) ^ 1024"
  shows "fl x = Finite (of_int n * 2 powi (e - 52))"
  using assms(5) by (simp add: fl_def round_double_exact [OF assms(1-4)])

lemma percentToSliderKw_eval:
  assumes "fl (x / 100) = Finite a1" "fl (a1 * m) = Finite a2" "fl (a2 * 2) = Finite a3"
    and "\<lfloor>a3 + 1 / 2\<rfloor> = j" "fl (of_int j / 2) = Finite k"
  shows "percentToSliderKw (Finite m) (Finite x) = Finite k"
  by (simp add: percentToSliderKw_def assms)

lemma sliderKwToPercent_eval:
  assumes "m \<noteq> 0" "fl (k / m) = Finite y1" "fl (y1 * 100) = Finite y2" "\<lfloor>y2 + 1 / 2\<rfloor> = q"
  shows "sliderKwToPercent (Finite m) (Finite k) = Finite (of_int q)"
  by (simp add: sliderKwToPercent_def assms)


text \<open>
  Values of the conversions at ordinary settings, where rounding in doubles shows:
  58 percent of 12.5 kW is 7.25 in exact arithmetic and a little less in doubles, so the
  slider stands at 7 kW and the round trip returns 56; 11.5 kW of 20 kW is 57 percent.
\<close>

lemma conversion_examples:
  "percentToSliderKw (Finite (25 / 2)) (Finite 58) = Finite 7
   \<and> roundTrip (Finite (25 / 2)) (Finite 58) = Finite 56
   \<and> sliderKwToPercent (Finite 20) (Finite (23 / 2)) = Finite 57"
proof -
  have r58_kw: "percentToSliderKw (Finite (25 / 2)) (Finite (58)) = Finite (of_int 7881299347898368 * 2 powi (2 - 52))"
  proof (rule percentToSliderKw_eval [where ?a1.0 = "of_int 5224175567749775 * 2 powi (-1 - 52)" and ?a2.0 = "of_int 8162774324609023 * 2 powi (2 - 52)"
      and ?a3.0 = "of_int 8162774324609023 * 2 powi (3 - 52)" and j = "14"])
    show "fl (58 / 100) = Finite (of_int 5224175567749775 * 2 powi (-1 - 52))"
      by (rule fl_exact) (simp_all add: round_ties_even_def Let_def)
    show "fl (of_int 5224175567749775 * 2 powi (-1 - 52) * (25 / 2)) = Finite (of_int 8162774324609023 * 2 powi (2 - 52))"
      by (rule fl_exact) (simp_all add: round_ties_even_def Let_def)
    show "fl (of_int 8162774324609023 * 2 powi (2 - 52) * 2) = Finite (of_int 8162774324609023 * 2 powi (3 - 52))"
      by (rule fl_exact) (simp_all add: round_ties_even_def Let_def)
    show "\<lfloor>(of_int 8162774324609023 * 2 powi (3 - 52) :: real) + 1 / 2\<rfloor> = (14::int)"
      by simp
    show "fl (of_int 14 / 2) = Finite (of_int 7881299347898368 * 2 powi (2 - 52))"
      by (rule fl_exact) (simp_all add: round_ties_even_def Let_def)
  qed
  have r58_pc: "sliderKwToPercent (Finite (25 / 2)) (Finite (of_int 7881299347898368 * 2 powi (2 - 52))) = Finite (of_int 56)"
  proof (rule sliderKwToPercent_eval [where ?y1.0 = "of_int 5044031582654956 * 2 powi (-1 - 52)" and ?y2.0 = "of_int 7881299347898369 * 2 powi (5 - 52)"])
    show "(25 / 2::real) \<noteq> 0"
      by simp
    show "fl (of_int 7881299347898368 * 2 powi (2 - 52) / (25 / 2)) = Finite (of_int 5044031582654956 * 2 powi (-1 - 52))"
      by (rule fl_exact) (simp_all add: round_ties_even_def Let_def)
    show "fl (of_int 5044031582654956 * 2 powi (-1 - 52) * 100) = Finite (of_int 7881299347898369 * 2 powi (5 - 52))"
      by (rule fl_exact) (simp_all add: round_ties_even_def Let_def)
    show "\<lfloor>(of_int 7881299347898369 * 2 powi (5 - 52) :: real) + 1 / 2\<rfloor> = (56::int)"
      by simp
  qed
  have r58: "roundTrip (Finite (25 / 2)) (Finite (58)) = Finite 56"
    unfolding roundTrip_def r58_kw r58_pc by simp
  have s115: "sliderKwToPercent (Finite (20)) (Finite (23 / 2)) = Finite (of_int 57)"
  proof (rule sliderKwToPercent_eval [where ?y1.0 = "of_int 5179139571476070 * 2 powi (-1 - 52)" and ?y2.0 = "of_int 8092405580431359 * 2 powi (5 - 52)"])
    show "(20::real) \<noteq> 0"
      by simp
    show "fl (23 / 2 / (20)) = Finite (of_int 5179139571476070 * 2 powi (-1 - 52))"
      by (rule fl_exact) (simp_all add: round_ties_even_def Let_def)
    show "fl (of_int 5179139571476070 * 2 powi (-1 - 52) * 100) = Finite (of_int 8092405580431359 * 2 powi (5 - 52))"
      by (rule fl_exact) (simp_all add: round_ties_even_def Let_def)
    show "\<lfloor>(of_int 8092405580431359 * 2 powi (5 - 52) :: real) + 1 / 2\<rfloor> = (57::int)"
      by simp
  qed
  from r58_kw have "percentToSliderKw (Finite (25 / 2)) (Finite 58) = Finite 7"
    by simp
  moreover from s115 have "sliderKwToPercent (Finite 20) (Finite (23 / 2)) = Finite 57"
    by simp
  ultimately show ?thesis
    using r58 by simp
qed






subsection \<open>Day mask round trip\<close>

lemma days_of_mask:
  "getDaysFromMask m =
     [(''monday'', bit m 0), (''tuesday'', bit m 1), (''wednesday'', bit m 2),
      (''thursday'', bit m 3), (''friday'', bit m 4), (''saturday'', bit m 5),
      (''sunday'', bit m 6)]"
  by (simp add: getDaysFromMask_def dayKeys_def bit_iff_and_push_bit_not_eq_0 numeral_eq_Suc)

lemma mask_of_days:
  "calculateDaymask (Some (getDaysFromMask m)) =
     of_bool (bit m 0) + 2 * of_bool (bit m 1) + 4 * of_bool (bit m 2)
     + 8 * of_bool (bit m 3) + 16 * of_bool (bit m 4) + 32 * of_bool (bit m 5)
     + 64 * of_bool (bit m 6)"
  unfolding days_of_mask
  by (simp add: calculateDaymask_def dayKeys_def day_selected_def numeral_eq_Suc)

lemma upt_7: "[0..<7] = [0, 1, 2, 3, 4, 5, 6::nat]"
  by (simp add: upt_rec)

lemma take_bit_7_bits:
  "take_bit 7 (m::int) =
     of_bool (bit m 0) + 2 * of_bool (bit m 1) + 4 * of_bool (bit m 2)
     + 8 * of_bool (bit m 3) + 16 * of_bool (bit m 4) + 32 * of_bool (bit m 5)
     + 64 * of_bool (bit m 6)"
proof -
  have "take_bit 7 m = (\<Sum>k\<leftarrow>[0..<7]. push_bit k (of_bool (bit m k)))"
    by (simp add: take_bit_sum [of 7 m] sum_list_distinct_conv_sum_set del: upt.simps)
  also have "\<dots> = of_bool (bit m 0) + 2 * of_bool (bit m 1) + 4 * of_bool (bit m 2)
     + 8 * of_bool (bit m 3) + 16 * of_bool (bit m 4) + 32 * of_bool (bit m 5)
     + 64 * of_bool (bit m 6)"
    unfolding upt_7 by (simp add: push_bit_eq_mult split del: split_of_bool)
  finally show ?thesis .
qed

text \<open>
  C6. For every integer mask from 0 to 127, the weekday selection made by
  \<open>getDaysFromMask\<close> is turned back into the same mask by \<open>calculateDaymask\<close>.
\<close>

theorem C6_daymask_round_trip:
  "0 \<le> m \<Longrightarrow> m \<le> 127 \<Longrightarrow> calculateDaymask (Some (getDaysFromMask m)) = m"
  unfolding mask_of_days take_bit_7_bits [symmetric]
  by (simp add: take_bit_int_eq_self)

theorem C6_daymask_round_trip_witness:
  "(0::int) \<le> 77 \<and> (77::int) \<le> 127
   \<and> getDaysFromMask 77 =
       [(''monday'', True), (''tuesday'', False), (''wednesday'', True), (''thursday'', True),
        (''friday'', False), (''saturday'', False), (''sunday'', True)]
   \<and> calculateDaymask (Some (getDaysFromMask 77)) = 77"
proof -
  have "calculateDaymask (Some (getDaysFromMask 77)) = 77"
    using C6_daymask_round_trip [of 77] by simp
  moreover have "getDaysFromMask 77 =
       [(''monday'', True), (''tuesday'', False), (''wednesday'', True), (''thursday'', True),
        (''friday'', False), (''saturday'', False), (''sunday'', True)]"
    by (simp add: getDaysFromMask_def dayKeys_def numeral_eq_Suc)
  ultimately show ?thesis by simp
qed

subsection \<open>Time strings\<close>

lemma nat_less_10: "n < 10 \<Longrightarrow> n \<in> {0, 1, 2, 3, 4, 5, 6, 7, 8, 9::nat}"
  by auto

lemma isDigit_digitChar: "n < 10 \<Longrightarrow> isDigit (digitChar n)"
  using nat_less_10 [of n] by (auto simp: isDigit_def digitChar_def)

lemma digitValue_digitChar: "n < 10 \<Longrightarrow> digitValue (digitChar n) = int n"
  using nat_less_10 [of n] by (auto simp: digitValue_def digitChar_def)

lemma digitChar_not_colon: "n < 10 \<Longrightarrow> digitChar n \<noteq> CHR '':''"
  using nat_less_10 [of n] by (auto simp: digitChar_def)

lemma isDigit_cases: "isDigit c \<Longrightarrow> \<exists>n<10. c = digitChar n"
proof -
  assume "isDigit c"
  then have "c \<in> digitChar ` {0, 1, 2, 3, 4, 5, 6, 7, 8, 9}"
    by (auto simp: isDigit_def digitChar_def)
  then obtain n where "n \<in> {0, 1, 2, 3, 4, 5, 6, 7, 8, 9::nat}" "c = digitChar n"
    by blast
  moreover from this have "n < 10" by auto
  ultimately show ?thesis by blast
qed

lemma timeRegex_test_hhmm:
  assumes "h < 24" "m < 60"
  shows "timeRegex_test (hhmm h m)"
proof -
  have m1: "m div 10 \<in> {0, 1, 2, 3, 4, 5}" using assms(2) by auto
  have m2: "isDigit (digitChar (m mod 10))" by (simp add: isDigit_digitChar)
  have h2: "isDigit (digitChar (h mod 10))" by (simp add: isDigit_digitChar)
  have "h div 10 = 2 \<Longrightarrow> h mod 10 < 4"
    using assms(1) by presburger
  then have c3: "h div 10 = 2 \<Longrightarrow> h mod 10 \<in> {0, 1, 2, 3}"
    by auto
  have "h div 10 = 0 \<or> h div 10 = 1 \<or> h div 10 = 2"
    using assms(1) by presburger
  then have hh: "(digitChar (h div 10) \<in> set ''01'' \<and> isDigit (digitChar (h mod 10)))
                 \<or> (digitChar (h div 10) = CHR ''2'' \<and> digitChar (h mod 10) \<in> set ''0123'')"
    using h2 c3 by (elim disjE) (auto simp: digitChar_def)
  have mm: "digitChar (m div 10) \<in> set ''012345''"
    using m1 by (auto simp: digitChar_def)
  show ?thesis
    using hh mm m2 by (simp add: hhmm_def)
qed

lemma timeRegex_test_is_hhmm:
  assumes "timeRegex_test s"
  shows "\<exists>h m. h < 24 \<and> m < 60 \<and> s = hhmm h m"
proof -
  from assms obtain h1 h2 c m1 m2 where s: "s = [h1, h2, c, m1, m2]"
    by (auto elim: timeRegex_test.elims)
  from assms s have c: "c = CHR '':''" and d2: "isDigit m2"
    and hh: "(h1 \<in> set ''01'' \<and> isDigit h2) \<or> (h1 = CHR ''2'' \<and> h2 \<in> set ''0123'')"
    and d1: "m1 \<in> set ''012345''"
    by simp_all
  from d1 obtain a where a: "a < 6" "m1 = digitChar a"
    by (auto simp: digitChar_def intro: that [of 0] that [of 1] that [of 2] that [of 3] that [of 4] that [of 5])
  from d2 obtain b where b: "b < 10" "m2 = digitChar b"
    using isDigit_cases by blast
  from hh obtain x y where xy: "x < 3" "y < 10" "x = 2 \<longrightarrow> y < 4" "h1 = digitChar x" "h2 = digitChar y"
  proof
    assume "h1 \<in> set ''01'' \<and> isDigit h2"
    then obtain y where "y < 10" "h2 = digitChar y" and "h1 = digitChar 0 \<or> h1 = digitChar 1"
      using isDigit_cases by (auto simp: digitChar_def)
    then show ?thesis
      using that [of 0 y] that [of 1 y] by auto
  next
    assume "h1 = CHR ''2'' \<and> h2 \<in> set ''0123''"
    then have "h1 = digitChar 2" and "h2 = digitChar 0 \<or> h2 = digitChar 1 \<or> h2 = digitChar 2 \<or> h2 = digitChar 3"
      by (auto simp: digitChar_def)
    then show ?thesis
      using that [of 2 0] that [of 2 1] that [of 2 2] that [of 2 3] by auto
  qed
  have "10 * x + y < 24" using xy by (cases "x = 2") auto
  moreover have "10 * a + b < 60" using a b by simp
  moreover have "s = hhmm (10 * x + y) (10 * a + b)"
    using s c a b xy by (simp add: hhmm_def)
  ultimately show ?thesis by blast
qed

lemma js_split_hhmm:
  assumes "h < 24" "m < 60"
  shows "js_split CHR '':'' (hhmm h m) =
           [[digitChar (h div 10), digitChar (h mod 10)], [digitChar (m div 10), digitChar (m mod 10)]]"
proof -
  have "h div 10 < 10" "h mod 10 < 10" "m div 10 < 10" "m mod 10 < 10"
    using assms by simp_all
  then show ?thesis
    by (simp add: hhmm_def digitChar_not_colon)
qed

lemma js_Number_two_digits:
  assumes "a < 10" "b < 10"
  shows "js_Number [digitChar a, digitChar b] = Num (int (10 * a + b))"
  using assms by (simp add: js_Number_def isDigit_digitChar digitValue_digitChar)

lemma timeToMinutes_hhmm:
  assumes "h < 24" "m < 60"
  shows "timeToMinutes (Some (hhmm h m)) = Num (int (h * 60 + m))"
proof -
  have d: "h div 10 < 10" "h mod 10 < 10" "m div 10 < 10" "m mod 10 < 10"
    using assms by simp_all
  have ne: "hhmm h m \<noteq> []" by (simp add: hhmm_def)
  show ?thesis
    using assms ne
    by (simp add: timeToMinutes_def timeRegex_test_hhmm js_split_hhmm element_def
        js_Number_two_digits d)
qed

lemma timeToMinutes_malformed:
  "\<not> timeRegex_test s \<Longrightarrow> timeToMinutes (Some s) = Num 0"
  by (simp add: timeToMinutes_def)


lemma two_digits:
  assumes "n < 100"
  shows "padStart 2 CHR ''0'' (js_String (Num (int n))) = [digitChar (n div 10), digitChar (n mod 10)]"
proof (cases "n < 10")
  case True
  then show ?thesis by (simp add: padStart_def js_String_def digitChar_def)
next
  case False
  with assms have "n div 10 < 10" by simp
  with False show ?thesis by (simp add: padStart_def js_String_def)
qed

lemma getCurrentTime_hhmm:
  "getHours now < 24 \<Longrightarrow> getMinutes now < 60 \<Longrightarrow> getCurrentTime now = hhmm (getHours now) (getMinutes now)"
  by (simp add: getCurrentTime_def two_digits hhmm_def)

lemma hours_of_minutes: "(t div 60) mod 24 = (t mod 1440) div (60::nat)"
proof -
  have "t mod (60 * 24) = 60 * (t div 60 mod 24) + t mod 60"
    by (rule mod_mult2_eq)
  then have "(t mod 1440) div 60 = (60 * (t div 60 mod 24) + t mod 60) div 60"
    by simp
  also have "\<dots> = t div 60 mod 24"
    by simp
  finally show ?thesis by simp
qed

lemma minutes_of_minutes: "t mod 60 = (t mod 1440) mod (60::nat)"
  by (simp add: mod_mod_cancel)

lemma local_hours:
  "((D * 86400000 + int t * 60000) div 3600000) mod 24 = int ((t mod 1440) div 60)"
proof -
  have a: "D * 86400000 + int t * 60000 = (D * 24 * 60 + int t) * 60000"
    by (simp add: algebra_simps)
  have "((D * 24 * 60 + int t) * 60000) div (60 * 60000) = (D * 24 * 60 + int t) div 60"
    by (rule div_mult_mult2) simp
  also have "\<dots> = D * 24 + int t div 60"
    by (rule div_mult_self3) simp
  finally have "(D * 86400000 + int t * 60000) div 3600000 = D * 24 + int t div 60"
    unfolding a by simp
  moreover have "(D * 24 + int t div 60) mod 24 = (int t div 60) mod 24"
    by (rule mod_mult_self3)
  moreover have "(int t div 60) mod 24 = int ((t div 60) mod 24)"
    by (simp only: zdiv_int zmod_int of_nat_numeral)
  ultimately show ?thesis
    by (simp only: hours_of_minutes)
qed

lemma local_minutes:
  "((D * 86400000 + int t * 60000) div 60000) mod 60 = int ((t mod 1440) mod 60)"
proof -
  have a: "D * 86400000 + int t * 60000 = (D * 1440 + int t) * 60000"
    by (simp add: algebra_simps)
  have "(D * 86400000 + int t * 60000) div 60000 = D * 1440 + int t"
    unfolding a by simp
  moreover have "(D * 24 * 60 + int t) mod 60 = int t mod 60"
    by (rule mod_mult_self3)
  moreover have "int t mod 60 = int (t mod 60)"
    by (simp only: zmod_int of_nat_numeral)
  ultimately have "((D * 86400000 + int t * 60000) div 60000) mod 60 = int (t mod 60)"
    by simp
  then show ?thesis
    by (simp only: minutes_of_minutes [symmetric])
qed

lemma parts_hhmm:
  assumes "h < 24" "m < 60"
  shows "map js_Number (js_split CHR '':'' (hhmm h m)) = [Num (int h), Num (int m)]"
proof -
  have dg: "h div 10 < 10" "h mod 10 < 10" "m div 10 < 10" "m mod 10 < 10"
    using assms by simp_all
  have "10 * (h div 10) + h mod 10 = h" "10 * (m div 10) + m mod 10 = m"
    by simp_all
  then show ?thesis
    unfolding js_split_hhmm [OF assms] by (simp add: js_Number_two_digits dg del: of_nat_add of_nat_mult)
qed

lemma steady_end_date:
  assumes "steady_interval host h m d"
  shows "Date_new (js_plus (Date_getTime (Date_setHours host (Date_now host) (Num (int h)) (Num (int m))))
                           (js_mult (Num d) (Num 60000)))
           = Some (end_instant host h m d)"
    and "LocalTime host (end_instant host h m d)
           = (LocalTime host (now_ms host) div 86400000) * 86400000
               + (int h * 60 + int m + d) * 60000"
proof -
  from assms have r: "\<bar>now_ms host\<bar> \<le> 8640000000000000"
      "\<bar>UTC host (start_local host h m)\<bar> \<le> 8640000000000000"
      "\<bar>end_instant host h m d\<bar> \<le> 8640000000000000"
    and z: "LocalTZA host (end_instant host h m d) True = LocalTZA host (start_local host h m) False"
    by (simp_all add: steady_interval_def)
  have n: "Date_now host = Some (now_ms host)"
    using r(1) by (simp add: Date_now_def TimeClip_def)
  have s: "Date_setHours host (Some (now_ms host)) (Num (int h)) (Num (int m))
             = Some (UTC host (start_local host h m))"
    using r(2) by (simp add: Date_setHours_def Let_def TimeClip_def start_local_def)
  show "Date_new (js_plus (Date_getTime (Date_setHours host (Date_now host) (Num (int h)) (Num (int m))))
                           (js_mult (Num d) (Num 60000)))
           = Some (end_instant host h m d)"
    unfolding n s using r(3)
    by (simp add: Date_getTime_def Date_new_def TimeClip_def end_instant_def)
  have "LocalTime host (end_instant host h m d)
          = start_local host h m + d * 60000"
    unfolding LocalTime_def z by (simp add: end_instant_def UTC_def)
  also have "\<dots> = (LocalTime host (now_ms host) div 86400000) * 86400000
               + (int h * 60 + int m + d) * 60000"
    by (simp add: start_local_def algebra_simps)
  finally show "LocalTime host (end_instant host h m d)
           = (LocalTime host (now_ms host) div 86400000) * 86400000
               + (int h * 60 + int m + d) * 60000" .
qed

lemma calculateEndTime_hhmm:
  assumes "h < 24" "m < 60" "steady_interval host h m (int d)"
  shows "calculateEndTime host (hhmm h m) (Num (int d)) =
           hhmm (((h * 60 + m + d) mod 1440) div 60) (((h * 60 + m + d) mod 1440) mod 60)"
proof -
  define t where "t = h * 60 + m + d"
  have e: "int h * 60 + int m + int d = int t"
    by (simp add: t_def)
  have hh: "(t mod 1440) div 60 < 100" by simp
  have mm: "(t mod 1440) mod 60 < 100" by simp
  have gh: "Date_getHours host (Some (end_instant host h m (int d))) = Num (int ((t mod 1440) div 60))"
    unfolding Date_getHours_def option.case steady_end_date(2) [OF assms(3)] e
    by (simp only: local_hours)
  have gm: "Date_getMinutes host (Some (end_instant host h m (int d))) = Num (int ((t mod 1440) mod 60))"
    unfolding Date_getMinutes_def option.case steady_end_date(2) [OF assms(3)] e
    by (simp only: local_minutes)
  have "calculateEndTime host (hhmm h m) (Num (int d)) =
          padStart 2 CHR ''0'' (js_String (Date_getHours host (Some (end_instant host h m (int d)))))
          @ '':'' @
          padStart 2 CHR ''0'' (js_String (Date_getMinutes host (Some (end_instant host h m (int d)))))"
  proof -
    have el: "element [Num (int h), Num (int m)] 0 = Num (int h)"
      "element [Num (int h), Num (int m)] 1 = Num (int m)"
      by (simp_all add: element_def)
    show ?thesis
      unfolding calculateEndTime_def Let_def parts_hhmm [OF assms(1,2)] el
        steady_end_date(1) [OF assms(3)] ..
  qed
  then show ?thesis
    unfolding gh gm two_digits [OF hh] two_digits [OF mm]
    by (simp add: hhmm_def t_def)
qed


lemma hhmm_inject:
  assumes "h < 24" "m < 60" "h' < 24" "m' < 60" "hhmm h m = hhmm h' m'"
  shows "h = h' \<and> m = m'"
proof -
  have "timeToMinutes (Some (hhmm h m)) = timeToMinutes (Some (hhmm h' m'))"
    using assms(5) by simp
  then have "int (h * 60 + m) = int (h' * 60 + m')"
    using assms(1-4) by (simp only: timeToMinutes_hhmm jsnum.inject)
  then have e: "h * 60 + m = h' * 60 + m'"
    by (simp only: of_nat_eq_iff)
  have "(h * 60 + m) div 60 = h" "(h' * 60 + m') div 60 = h'"
    "(h * 60 + m) mod 60 = m" "(h' * 60 + m') mod 60 = m'"
    using assms(2,4) by simp_all
  with e show ?thesis by metis
qed


text \<open>
  C10. \<open>timeToMinutes\<close> returns a number for every input, never \<open>NaN\<close>, and the number
  is an integer from 0 to 1439; for the zero-padded time \<open>h:m\<close> with \<open>h < 24\<close> and
  \<open>m < 60\<close> (these are exactly the strings the strict pattern accepts, see
  \<open>timeRegex_test_hhmm\<close> and \<open>timeRegex_test_is_hhmm\<close>) it is \<open>h * 60 + m\<close>, and for
  every other input, \<open>null\<close> and the empty string included, it is 0.
\<close>

theorem C10_timeToMinutes_total_bounded:
  "(\<exists>n. timeToMinutes ts = Num n \<and> 0 \<le> n \<and> n \<le> 1439)
   \<and> (\<forall>h m. h < 24 \<and> m < 60 \<longrightarrow> timeToMinutes (Some (hhmm h m)) = Num (int h * 60 + int m))
   \<and> ((\<nexists>h m. h < 24 \<and> m < 60 \<and> ts = Some (hhmm h m)) \<longrightarrow> timeToMinutes ts = Num 0)"
proof (intro conjI)
  show "\<forall>h m. h < 24 \<and> m < 60 \<longrightarrow> timeToMinutes (Some (hhmm h m)) = Num (int h * 60 + int m)"
    by (simp add: timeToMinutes_hhmm)
  show other: "(\<nexists>h m. h < 24 \<and> m < 60 \<and> ts = Some (hhmm h m)) \<longrightarrow> timeToMinutes ts = Num 0"
  proof
    assume n: "\<nexists>h m. h < 24 \<and> m < 60 \<and> ts = Some (hhmm h m)"
    show "timeToMinutes ts = Num 0"
    proof (cases ts)
      case None
      then show ?thesis by (simp add: timeToMinutes_def)
    next
      case (Some s)
      with n have "\<not> timeRegex_test s"
        using timeRegex_test_is_hhmm by blast
      with Some show ?thesis by (simp add: timeToMinutes_malformed)
    qed
  qed
  show "\<exists>n. timeToMinutes ts = Num n \<and> 0 \<le> n \<and> n \<le> 1439"
  proof (cases "\<exists>h m. h < 24 \<and> m < 60 \<and> ts = Some (hhmm h m)")
    case True
    then obtain h m where hm: "h < 24" "m < 60" "ts = Some (hhmm h m)" by blast
    then have "timeToMinutes ts = Num (int (h * 60 + m))"
      by (simp add: timeToMinutes_hhmm)
    moreover have "h * 60 + m \<le> 1439" using hm by simp
    ultimately show ?thesis by auto
  next
    case False
    with other show ?thesis by simp
  qed
qed

theorem C10_timeToMinutes_total_bounded_witness:
  "hhmm 23 59 = ''23:59'' \<and> timeToMinutes (Some ''23:59'') = Num 1439
   \<and> timeToMinutes (Some ''24:00'') = Num 0 \<and> timeToMinutes (Some []) = Num 0
   \<and> timeToMinutes None = Num 0"
proof -
  have f: "hhmm 23 59 = ''23:59''"
    by (simp add: hhmm_def digitChar_def)
  have "timeToMinutes (Some (hhmm 23 59)) = Num (int 23 * 60 + int 59)"
    using C10_timeToMinutes_total_bounded [of None] by simp
  then have "timeToMinutes (Some ''23:59'') = Num 1439"
    by (simp add: f)
  moreover have "timeToMinutes (Some ''24:00'') = Num 0" "timeToMinutes (Some []) = Num 0"
    "timeToMinutes None = Num 0"
    by (simp_all add: timeToMinutes_def)
  ultimately show ?thesis using f by simp
qed

lemma steady_host_utc:
  "steady_interval host_utc 23 50 20" "steady_interval host_utc 8 0 30"
  "steady_interval host_utc 22 45 135" "steady_interval host_utc 9 30 45"
  by (simp_all add: steady_interval_def start_local_def end_instant_def UTC_def LocalTime_def
      host_utc_def)

text \<open>
  C7. As long as the time value read from the system clock, the start instant and the
  end instant are inside the range of \<open>Date\<close> and local time at the end instant has the
  offset with which the start was taken to UTC (\<open>steady_interval\<close>), the end time is the
  start time plus the duration, wrapped at midnight:
  \<open>calculateEndTime "23:50" 20 = "00:10"\<close>, \<open>calculateEndTime "08:00" 30 = "08:30"\<close>, and
  for every start time that the strict pattern accepts, which is \<open>hhmm h m\<close> for some
  \<open>h < 24\<close> and \<open>m < 60\<close>, and every duration \<open>d \<ge> 0\<close> in minutes the result is the
  zero-padded time of day of minute \<open>(h * 60 + m + d) mod 1440\<close>.
\<close>

theorem C7_calculateEndTime_wraps:
  "(steady_interval host 23 50 20 \<longrightarrow> calculateEndTime host ''23:50'' (Num 20) = ''00:10'')
   \<and> (steady_interval host 8 0 30 \<longrightarrow> calculateEndTime host ''08:00'' (Num 30) = ''08:30'')
   \<and> (\<forall>s d. timeRegex_test s \<longrightarrow>
         (\<exists>h m. h < 24 \<and> m < 60 \<and> s = hhmm h m
            \<and> (steady_interval host h m (int d) \<longrightarrow>
                 calculateEndTime host s (Num (int d)) =
                   hhmm (((h * 60 + m + d) mod 1440) div 60) (((h * 60 + m + d) mod 1440) mod 60))))"
proof (intro conjI allI impI)
  assume "steady_interval host 23 50 20"
  then show "calculateEndTime host ''23:50'' (Num 20) = ''00:10''"
    using calculateEndTime_hhmm [of 23 50 host 20] by (simp add: hhmm_def digitChar_def)
next
  assume "steady_interval host 8 0 30"
  then show "calculateEndTime host ''08:00'' (Num 30) = ''08:30''"
    using calculateEndTime_hhmm [of 8 0 host 30] by (simp add: hhmm_def digitChar_def)
next
  fix s :: string and d :: nat
  assume "timeRegex_test s"
  then obtain h m where hm: "h < 24" "m < 60" "s = hhmm h m"
    using timeRegex_test_is_hhmm by blast
  then show "\<exists>h m. h < 24 \<and> m < 60 \<and> s = hhmm h m
            \<and> (steady_interval host h m (int d) \<longrightarrow>
                 calculateEndTime host s (Num (int d)) =
                   hhmm (((h * 60 + m + d) mod 1440) div 60) (((h * 60 + m + d) mod 1440) mod 60))"
    using calculateEndTime_hhmm [of h m host d] by blast
qed

theorem C7_calculateEndTime_wraps_witness:
  "steady_interval host_utc 23 50 20 \<and> calculateEndTime host_utc ''23:50'' (Num 20) = ''00:10''
   \<and> steady_interval host_utc 8 0 30 \<and> calculateEndTime host_utc ''08:00'' (Num 30) = ''08:30''
   \<and> timeRegex_test ''22:45'' \<and> steady_interval host_utc 22 45 135
   \<and> calculateEndTime host_utc ''22:45'' (Num 135) = ''01:00''"
proof -
  note inst = C7_calculateEndTime_wraps [of host_utc]
  have a: "calculateEndTime host_utc ''23:50'' (Num 20) = ''00:10''"
    by (rule inst [THEN conjunct1, THEN mp, OF steady_host_utc(1)])
  have b: "calculateEndTime host_utc ''08:00'' (Num 30) = ''08:30''"
    by (rule inst [THEN conjunct2, THEN conjunct1, THEN mp, OF steady_host_utc(2)])
  have t: "timeRegex_test ''22:45''"
    by (simp add: isDigit_def)
  have e: "hhmm 22 45 = ''22:45''"
    by (simp add: hhmm_def digitChar_def)
  have "\<exists>h m. h < 24 \<and> m < 60 \<and> ''22:45'' = hhmm h m
          \<and> (steady_interval host_utc h m (int 135) \<longrightarrow>
               calculateEndTime host_utc ''22:45'' (Num (int 135)) =
                 hhmm (((h * 60 + m + 135) mod 1440) div 60) (((h * 60 + m + 135) mod 1440) mod 60))"
    by (rule inst [THEN conjunct2, THEN conjunct2, THEN spec, THEN spec, THEN mp, OF t])
  then obtain h m where hm: "h < 24" "m < 60" "''22:45'' = hhmm h m"
    and r: "steady_interval host_utc h m (int 135) \<Longrightarrow>
       calculateEndTime host_utc ''22:45'' (Num (int 135)) =
         hhmm (((h * 60 + m + 135) mod 1440) div 60) (((h * 60 + m + 135) mod 1440) mod 60)"
    by blast
  have same: "hhmm h m = hhmm 22 45"
    unfolding e by (rule hm(3) [symmetric])
  have hm': "h = 22 \<and> m = 45"
    by (rule hhmm_inject [OF hm(1) hm(2) _ _ same]) simp_all
  have "steady_interval host_utc h m (int 135)"
    using hm' steady_host_utc(3) by simp
  from r [OF this] hm' have "calculateEndTime host_utc ''22:45'' (Num (int 135)) = hhmm 1 0"
    by simp
  then have c: "calculateEndTime host_utc ''22:45'' (Num 135) = ''01:00''"
    by (simp add: hhmm_def digitChar_def)
  from a b c t steady_host_utc(1,2,3) show ?thesis
    by simp
qed

text \<open>
  Against C7 as it is worded. On a host whose local time is UTC, at noon of 1 January
  2025: a duration of 144000000000 minutes, a multiple of a day, takes the end instant
  out of the range of \<open>Date\<close>, and the result is \<open>NaN:NaN\<close> where the claim has \<open>08:00\<close>. On
  a host in the zone of Berlin, at 01:00 local time of 30 March 2025, one hour before the
  clocks go from 02:00 to 03:00: 60 minutes after \<open>01:30\<close> is \<open>03:30\<close>. On a host in the zone
  of Santiago, at 22:00 local time of 6 September 2025, two hours before the clocks go
  from 24:00 to 01:00: 20 minutes after \<open>23:50\<close> is \<open>01:10\<close>.
\<close>

theorem C7_range_and_zone_counterexample:
  "timeRegex_test ''08:00''
   \<and> calculateEndTime host_utc ''08:00'' (Num 144000000000) = ''NaN:NaN''
   \<and> hhmm (((8 * 60 + 0 + 144000000000) mod 1440) div 60) (((8 * 60 + 0 + 144000000000) mod 1440) mod 60)
       = ''08:00''
   \<and> timeRegex_test ''01:30''
   \<and> calculateEndTime host_berlin_dst ''01:30'' (Num 60) = ''03:30''
   \<and> hhmm (((1 * 60 + 30 + 60) mod 1440) div 60) (((1 * 60 + 30 + 60) mod 1440) mod 60) = ''02:30''
   \<and> calculateEndTime host_santiago_dst ''23:50'' (Num 20) = ''01:10''"
proof -
  have p: "map js_Number (js_split CHR '':'' ''08:00'') = [Num 8, Num 0]"
    "map js_Number (js_split CHR '':'' ''01:30'') = [Num 1, Num 30]"
    "map js_Number (js_split CHR '':'' ''23:50'') = [Num 23, Num 50]"
    by (simp_all add: js_Number_def isDigit_def digitValue_def)
  have a: "calculateEndTime host_utc ''08:00'' (Num 144000000000) = ''NaN:NaN''"
    unfolding calculateEndTime_def Let_def p
    by (simp add: element_def host_utc_def Date_now_def Date_setHours_def Date_new_def
        Date_getTime_def Date_getHours_def Date_getMinutes_def TimeClip_def LocalTime_def UTC_def
        js_String_def padStart_def)
  have b: "calculateEndTime host_berlin_dst ''01:30'' (Num 60) = ''03:30''"
    unfolding calculateEndTime_def Let_def p
    by (simp add: element_def host_berlin_dst_def Date_now_def Date_setHours_def Date_new_def
        Date_getTime_def Date_getHours_def Date_getMinutes_def TimeClip_def LocalTime_def UTC_def
        js_String_def padStart_def digitChar_def)
  have c: "calculateEndTime host_santiago_dst ''23:50'' (Num 20) = ''01:10''"
    unfolding calculateEndTime_def Let_def p
    by (simp add: element_def host_santiago_dst_def Date_now_def Date_setHours_def Date_new_def
        Date_getTime_def Date_getHours_def Date_getMinutes_def TimeClip_def LocalTime_def UTC_def
        js_String_def padStart_def digitChar_def)
  have t: "timeRegex_test ''08:00''" "timeRegex_test ''01:30''"
    by (simp_all add: isDigit_def)
  have h: "hhmm (((8 * 60 + 0 + 144000000000) mod 1440) div 60) (((8 * 60 + 0 + 144000000000) mod 1440) mod 60)
       = ''08:00''"
    "hhmm (((1 * 60 + 30 + 60) mod 1440) div 60) (((1 * 60 + 30 + 60) mod 1440) mod 60) = ''02:30''"
    by (simp_all add: hhmm_def digitChar_def)
  from a b c t h show ?thesis
    by simp
qed

subsection \<open>Deep merge\<close>

lemma source_step:
  "(\<lambda>(key, sourceValue) output.
      (case output of None \<Rightarrow> None
       | Some out \<Rightarrow>
           if key = ''__proto__'' \<and> map_of out key = None then
             (if replaces_prototype sourceValue then None else Some out)
           else
             (case (map_of out key, sourceValue) of
                (Some (JArr tv), JArr sv) \<Rightarrow> Some (AList.update key sourceValue out)
              | (Some (JObj tv), JObj sv) \<Rightarrow>
                  (case deepMerge (JObj tv) sourceValue of None \<Rightarrow> None
                   | Some merged \<Rightarrow> Some (AList.update key merged out))
              | _ \<Rightarrow> Some (AList.update key sourceValue out))))
   = source_entry"
proof (intro ext)
  fix p :: "string \<times> jsv" and acc :: "(string \<times> jsv) list option"
  obtain key sourceValue where p: "p = (key, sourceValue)"
    by (cases p)
  have inner: "(case (tvo, sourceValue) of
                (Some (JArr tv), JArr sv) \<Rightarrow> Some (AList.update key sourceValue out)
              | (Some (JObj tv), JObj sv) \<Rightarrow>
                  (case deepMerge (JObj tv) sourceValue of None \<Rightarrow> None
                   | Some merged \<Rightarrow> Some (AList.update key merged out))
              | _ \<Rightarrow> Some (AList.update key sourceValue out))
        = (case mergedValue tvo sourceValue of None \<Rightarrow> None
             | Some merged \<Rightarrow> Some (AList.update key merged out))" for tvo out
    unfolding mergedValue_def
    by (simp split: option.split jsv.split del: deepMerge.simps)
  show "(case p of (key, sourceValue) \<Rightarrow> \<lambda>output.
      (case output of None \<Rightarrow> None
       | Some out \<Rightarrow>
           if key = ''__proto__'' \<and> map_of out key = None then
             (if replaces_prototype sourceValue then None else Some out)
           else
             (case (map_of out key, sourceValue) of
                (Some (JArr tv), JArr sv) \<Rightarrow> Some (AList.update key sourceValue out)
              | (Some (JObj tv), JObj sv) \<Rightarrow>
                  (case deepMerge (JObj tv) sourceValue of None \<Rightarrow> None
                   | Some merged \<Rightarrow> Some (AList.update key merged out))
              | _ \<Rightarrow> Some (AList.update key sourceValue out)))) acc
   = source_entry p acc"
  proof (cases acc)
    case None
    then show ?thesis
      unfolding source_entry_def p by simp
  next
    case (Some out)
    show ?thesis
    proof (cases "key = ''__proto__'' \<and> map_of out key = None")
      case True
      then have "map_of out ''__proto__'' = None" "key = ''__proto__''"
        by blast+
      then show ?thesis
        unfolding source_entry_def p Some by simp
    next
      case False
      then have cond: "(key = ''__proto__'' \<and> map_of out key = None) = False"
        by blast
      show ?thesis
        unfolding source_entry_def p Some prod.case option.case cond if_False
        by (rule inner [unfolded prod.case])
    qed
  qed
qed

lemma deepMerge_loops:
  "deepMerge (JObj t) (JObj s) =
     (case fold source_entry s (Some t) of None \<Rightarrow> None
      | Some out \<Rightarrow> Some (JObj (fold (target_entry s) t out)))"
proof -
  have "deepMerge (JObj t) (JObj s) =
     (case (case fold source_entry s (Some t) of None \<Rightarrow> None
            | Some out \<Rightarrow> Some (fold (target_entry s) t out)) of
        None \<Rightarrow> None | Some out \<Rightarrow> Some (JObj out))"
    by (simp only: deepMerge.simps Let_def source_step target_entry_def)
  then show ?thesis
    by (simp split: option.split)
qed

lemma source_entry_Some:
  assumes "key \<noteq> ''__proto__''" "mergedValue (map_of out key) v = Some merged"
  shows "source_entry (key, v) (Some out) = Some (AList.update key merged out)"
  using assms by (simp add: source_entry_def)

lemma source_total:
  assumes "\<And>key v. (key, v) \<in> set s \<Longrightarrow> key \<noteq> ''__proto__''"
    and "\<And>key v tvo. (key, v) \<in> set s \<Longrightarrow> mergedValue tvo v \<noteq> None"
  shows "fold source_entry s (Some out) \<noteq> None"
  using assms
proof (induction s arbitrary: out)
  case Nil
  then show ?case by simp
next
  case (Cons p s)
  obtain key v where p: "p = (key, v)" by (cases p)
  from Cons.prems(1) [of key v] p have k: "key \<noteq> ''__proto__''" by simp
  from Cons.prems(2) [of key v "map_of out key"] p
  obtain merged where m: "mergedValue (map_of out key) v = Some merged" by auto
  have "fold source_entry s (Some (AList.update key merged out)) \<noteq> None"
  proof (rule Cons.IH)
    fix key v
    assume "(key, v) \<in> set s"
    then show "key \<noteq> ''__proto__''"
      using Cons.prems(1) [of key v] by simp
  next
    fix key v tvo
    assume "(key, v) \<in> set s"
    then show "mergedValue tvo v \<noteq> None"
      using Cons.prems(2) [of key v tvo] by simp
  qed
  then show ?case
    by (simp add: p source_entry_Some [OF k m])
qed

lemma source_loop:
  assumes "distinct (map fst s)"
    and "\<And>key v. (key, v) \<in> set s \<Longrightarrow> key \<noteq> ''__proto__''"
    and "\<And>key v tvo. (key, v) \<in> set s \<Longrightarrow> mergedValue tvo v \<noteq> None"
  shows "\<exists>out'. fold source_entry s (Some out) = Some out' \<and>
           (\<forall>k. map_of out' k = (case map_of s k of None \<Rightarrow> map_of out k
                                  | Some sv \<Rightarrow> mergedValue (map_of out k) sv))"
  using assms
proof (induction s arbitrary: out)
  case Nil
  then show ?case by simp
next
  case (Cons p s)
  obtain key v where p: "p = (key, v)" by (cases p)
  from Cons.prems(1) p have notin: "key \<notin> fst ` set s" and d: "distinct (map fst s)"
    by auto
  from notin have none: "map_of s key = None"
    by (simp add: map_of_eq_None_iff)
  from Cons.prems(2) [of key v] p have k: "key \<noteq> ''__proto__''" by simp
  from Cons.prems(3) [of key v "map_of out key"] p
  obtain merged where m: "mergedValue (map_of out key) v = Some merged" by auto
  define out1 where "out1 = AList.update key merged out"
  have "\<exists>out'. fold source_entry s (Some out1) = Some out' \<and>
           (\<forall>k. map_of out' k = (case map_of s k of None \<Rightarrow> map_of out1 k
                                  | Some sv \<Rightarrow> mergedValue (map_of out1 k) sv))"
  proof (rule Cons.IH [OF d])
    fix key v
    assume "(key, v) \<in> set s"
    then show "key \<noteq> ''__proto__''"
      using Cons.prems(2) [of key v] by simp
  next
    fix key v tvo
    assume "(key, v) \<in> set s"
    then show "mergedValue tvo v \<noteq> None"
      using Cons.prems(3) [of key v tvo] by simp
  qed
  then obtain out' where f: "fold source_entry s (Some out1) = Some out'"
    and look: "\<And>k. map_of out' k = (case map_of s k of None \<Rightarrow> map_of out1 k
                                  | Some sv \<Rightarrow> mergedValue (map_of out1 k) sv)"
    by blast
  have unfold: "fold source_entry (p # s) (Some out) = Some out'"
    by (simp add: p source_entry_Some [OF k m] f [unfolded out1_def])
  have "map_of out' k' = (case map_of (p # s) k' of None \<Rightarrow> map_of out k'
                                  | Some sv \<Rightarrow> mergedValue (map_of out k') sv)" for k'
  proof (cases "k' = key")
    case True
    with none have "map_of s k' = None" by simp
    moreover have "map_of out1 k' = Some merged"
      using True by (simp add: out1_def update_conv')
    ultimately show ?thesis
      using True m by (simp add: look p)
  next
    case False
    then have "map_of out1 k' = map_of out k'"
      by (simp add: out1_def update_conv')
    then show ?thesis
      using False by (simp add: look p split: option.split)
  qed
  with unfold show ?case by blast
qed

lemma target_loop:
  assumes "distinct (map fst t)" "set t' \<subseteq> set t"
    and "\<And>k. map_of s k = None \<Longrightarrow> map_of out k = map_of t k"
  shows "map_of (fold (target_entry s) t' out) = map_of out"
  using assms(2,3)
proof (induction t' arbitrary: out)
  case Nil
  then show ?case by simp
next
  case (Cons p t')
  obtain key tv where p: "p = (key, tv)" by (cases p)
  with Cons.prems(1) have "(key, tv) \<in> set t" by simp
  with assms(1) have tk: "map_of t key = Some tv" by simp
  from Cons.prems(1) have sub: "set t' \<subseteq> set t" by simp
  show ?case
  proof (cases "map_of s key = None \<and> key \<notin> set Object_prototype")
    case True
    with Cons.prems(2) tk have "map_of out key = Some tv" by simp
    then have same: "map_of (AList.update key tv out) = map_of out"
      by (auto simp: update_conv')
    have "map_of (fold (target_entry s) t' (AList.update key tv out))
            = map_of (AList.update key tv out)"
      using sub Cons.prems(2) by (intro Cons.IH) (simp_all add: same)
    with True show ?thesis by (simp add: p same target_entry_def)
  next
    case False
    have "map_of (fold (target_entry s) t' out) = map_of out"
      using sub Cons.prems(2) by (intro Cons.IH) simp_all
    with False show ?thesis by (auto simp add: p target_entry_def)
  qed
qed

lemma mergedValue_total:
  assumes "\<And>t. deepMerge t v \<noteq> None"
  shows "mergedValue tvo v \<noteq> None"
  using assms [of "the tvo"] unfolding mergedValue_def
  by (auto split: option.split jsv.split simp del: deepMerge.simps)

lemma proto_free_total:
  "proto_free v \<longrightarrow> (\<forall>t. deepMerge t v \<noteq> None)"
  "proto_free_entries kvs \<longrightarrow>
     (\<forall>key v. (key, v) \<in> set kvs \<longrightarrow> key \<noteq> ''__proto__'' \<and> (\<forall>t. deepMerge t v \<noteq> None))"
proof (induction v and kvs rule: proto_free_proto_free_entries.induct)
  case (1 kvs)
  show ?case
  proof (intro impI allI)
    fix t
    assume "proto_free (JObj kvs)"
    with 1 have keys: "\<And>key v. (key, v) \<in> set kvs \<Longrightarrow> key \<noteq> ''__proto__''"
      and tot: "\<And>key v t. (key, v) \<in> set kvs \<Longrightarrow> deepMerge t v \<noteq> None"
      by auto
    show "deepMerge t (JObj kvs) \<noteq> None"
    proof (cases t)
      case (JObj target)
      have "fold source_entry kvs (Some target) \<noteq> None"
        using keys tot by (intro source_total mergedValue_total) auto
      then show ?thesis
        unfolding JObj deepMerge_loops by (auto split: option.split)
    qed simp_all
  qed
qed simp_all

lemma deepMerge_lookup:
  assumes "distinct (map fst t)" "distinct (map fst s)" "proto_free (JObj s)"
  shows "\<exists>out. deepMerge (JObj t) (JObj s) = Some (JObj out) \<and>
           (\<forall>k. map_of out k = (case map_of s k of None \<Rightarrow> map_of t k
                                 | Some sv \<Rightarrow> mergedValue (map_of t k) sv))"
proof -
  from assms(3) proto_free_total(2) [of s]
  have keys: "\<And>key v. (key, v) \<in> set s \<Longrightarrow> key \<noteq> ''__proto__''"
    and tot: "\<And>key v t. (key, v) \<in> set s \<Longrightarrow> deepMerge t v \<noteq> None"
    by auto
  have "\<exists>out1. fold source_entry s (Some t) = Some out1 \<and>
           (\<forall>k. map_of out1 k = (case map_of s k of None \<Rightarrow> map_of t k
                                  | Some sv \<Rightarrow> mergedValue (map_of t k) sv))"
    using assms(2) keys tot by (intro source_loop mergedValue_total) auto
  then obtain out1 where f: "fold source_entry s (Some t) = Some out1"
    and m1: "\<And>k. map_of out1 k = (case map_of s k of None \<Rightarrow> map_of t k
                                  | Some sv \<Rightarrow> mergedValue (map_of t k) sv)"
    by blast
  have "map_of (fold (target_entry s) t out1) = map_of out1"
    by (rule target_loop [OF assms(1)]) (simp_all add: m1)
  moreover have "deepMerge (JObj t) (JObj s) = Some (JObj (fold (target_entry s) t out1))"
    by (simp only: deepMerge_loops f option.case)
  ultimately show ?thesis
    using m1 by simp
qed

lemma mergedValue_override:
  assumes "\<forall>a b. \<not> (targetValue = Some (JObj a) \<and> sourceValue = JObj b)"
  shows "mergedValue targetValue sourceValue = Some sourceValue"
proof (cases "\<exists>a b. targetValue = Some (JObj a) \<and> sourceValue = JObj b")
  case True
  with assms show ?thesis by blast
next
  case False
  then show ?thesis
    unfolding mergedValue_def
    by (auto split: option.split jsv.split simp del: deepMerge.simps)
qed

text \<open>
  C8. For a default object and an override object (association lists with distinct
  keys) such that no object of the override, at any depth, has an own key \<open>__proto__\<close>,
  \<open>deepMerge\<close> returns an object in which a key whose default and override values are
  both objects holds their recursive merge, a key whose default and override values
  are both arrays holds the override array itself, a key whose override value is not
  merged with an object (every scalar override in particular) holds the override value,
  and a key that the override lacks holds what the default object holds.
\<close>

theorem C8_deepMerge_by_key:
  assumes "distinct (map fst defaults)" "distinct (map fst overrides)"
    and "proto_free (JObj overrides)"
  shows "\<exists>out. deepMerge (JObj defaults) (JObj overrides) = Some (JObj out)
     \<and> (\<forall>key a b. map_of defaults key = Some (JObj a) \<and> map_of overrides key = Some (JObj b)
            \<longrightarrow> map_of out key = deepMerge (JObj a) (JObj b)
                \<and> deepMerge (JObj a) (JObj b) \<noteq> None)
     \<and> (\<forall>key a b. map_of defaults key = Some (JArr a) \<and> map_of overrides key = Some (JArr b)
            \<longrightarrow> map_of out key = Some (JArr b))
     \<and> (\<forall>key v. map_of overrides key = Some v
              \<and> (\<forall>a b. \<not> (map_of defaults key = Some (JObj a) \<and> v = JObj b))
            \<longrightarrow> map_of out key = Some v)
     \<and> (\<forall>key. map_of overrides key = None \<longrightarrow> map_of out key = map_of defaults key)"
proof -
  from deepMerge_lookup [OF assms] obtain out
    where out: "deepMerge (JObj defaults) (JObj overrides) = Some (JObj out)"
      and look: "\<And>k. map_of out k =
         (case map_of overrides k of None \<Rightarrow> map_of defaults k
          | Some sv \<Rightarrow> mergedValue (map_of defaults k) sv)"
    by blast
  from assms(3) proto_free_total(2) [of overrides]
  have tot: "\<And>key v t. (key, v) \<in> set overrides \<Longrightarrow> deepMerge t v \<noteq> None"
    by auto
  have objs: "map_of out key = deepMerge (JObj a) (JObj b) \<and> deepMerge (JObj a) (JObj b) \<noteq> None"
    if "map_of defaults key = Some (JObj a)" "map_of overrides key = Some (JObj b)" for key a b
    using that tot [of key "JObj b" "JObj a"]
    by (simp add: look mergedValue_def map_of_SomeD del: deepMerge.simps)
  have arrs: "map_of out key = Some (JArr b)"
    if "map_of defaults key = Some (JArr a)" "map_of overrides key = Some (JArr b)" for key a b
    using that by (simp add: look mergedValue_def)
  have over: "map_of out key = Some v"
    if "map_of overrides key = Some v"
      "\<forall>a b. \<not> (map_of defaults key = Some (JObj a) \<and> v = JObj b)" for key v
    using that by (simp add: look mergedValue_override)
  have keep: "map_of out key = map_of defaults key"
    if "map_of overrides key = None" for key
    using that by (simp add: look)
  from out objs arrs over keep show ?thesis
    by blast
qed

theorem C8_deepMerge_by_key_witness:
  "distinct (map fst [(''a'', JStr ''x''), (''b'', JObj [(''c'', JNum 1), (''d'', JArr [JNum 1])])])
   \<and> distinct (map fst [(''b'', JObj [(''d'', JArr [JNum 2]), (''e'', JNull)]), (''z'', JBool True)])
   \<and> proto_free (JObj [(''b'', JObj [(''d'', JArr [JNum 2]), (''e'', JNull)]), (''z'', JBool True)])
   \<and> deepMerge (JObj [(''a'', JStr ''x''), (''b'', JObj [(''c'', JNum 1), (''d'', JArr [JNum 1])])])
                (JObj [(''b'', JObj [(''d'', JArr [JNum 2]), (''e'', JNull)]), (''z'', JBool True)])
       = Some (JObj [(''a'', JStr ''x''),
               (''b'', JObj [(''c'', JNum 1), (''d'', JArr [JNum 2]), (''e'', JNull)]),
               (''z'', JBool True)])
   \<and> (\<exists>out. deepMerge (JObj [(''a'', JStr ''x''), (''b'', JObj [(''c'', JNum 1), (''d'', JArr [JNum 1])])])
                (JObj [(''b'', JObj [(''d'', JArr [JNum 2]), (''e'', JNull)]), (''z'', JBool True)])
                 = Some (JObj out)
          \<and> map_of out ''a'' = Some (JStr ''x'')
          \<and> map_of out ''z'' = Some (JBool True)
          \<and> map_of out ''b'' = deepMerge (JObj [(''c'', JNum 1), (''d'', JArr [JNum 1])])
                                             (JObj [(''d'', JArr [JNum 2]), (''e'', JNull)])
          \<and> map_of out ''b'' = Some (JObj [(''c'', JNum 1), (''d'', JArr [JNum 2]), (''e'', JNull)]))"
proof -
  let ?D = "[(''a'', JStr ''x''), (''b'', JObj [(''c'', JNum 1), (''d'', JArr [JNum 1])])]"
  let ?O = "[(''b'', JObj [(''d'', JArr [JNum 2]), (''e'', JNull)]), (''z'', JBool True)]"
  have d: "distinct (map fst ?D)" "distinct (map fst ?O)" "proto_free (JObj ?O)"
    by simp_all
  from C8_deepMerge_by_key [OF d] obtain out
    where out: "deepMerge (JObj ?D) (JObj ?O) = Some (JObj out)"
      and objs: "\<And>key a b. map_of ?D key = Some (JObj a) \<and> map_of ?O key = Some (JObj b)
            \<Longrightarrow> map_of out key = deepMerge (JObj a) (JObj b)"
      and over: "\<And>key v. map_of ?O key = Some v
              \<and> (\<forall>a b. \<not> (map_of ?D key = Some (JObj a) \<and> v = JObj b))
            \<Longrightarrow> map_of out key = Some v"
      and keep: "\<And>key. map_of ?O key = None \<Longrightarrow> map_of out key = map_of ?D key"
    by blast
  have a: "map_of out ''a'' = Some (JStr ''x'')"
    using keep [of "''a''"] by simp
  have z: "map_of out ''z'' = Some (JBool True)"
    using over [of "''z''" "JBool True"] by simp
  have b: "map_of out ''b'' = deepMerge (JObj [(''c'', JNum 1), (''d'', JArr [JNum 1])])
                                         (JObj [(''d'', JArr [JNum 2]), (''e'', JNull)])"
    using objs [of "''b''"] by simp
  have b': "deepMerge (JObj [(''c'', JNum 1), (''d'', JArr [JNum 1])])
                      (JObj [(''d'', JArr [JNum 2]), (''e'', JNull)])
              = Some (JObj [(''c'', JNum 1), (''d'', JArr [JNum 2]), (''e'', JNull)])"
    by (simp add: Object_prototype_def)
  have ev: "deepMerge (JObj ?D) (JObj ?O)
       = Some (JObj [(''a'', JStr ''x''),
               (''b'', JObj [(''c'', JNum 1), (''d'', JArr [JNum 2]), (''e'', JNull)]),
               (''z'', JBool True)])"
    by (simp add: Object_prototype_def)
  from d ev out a z b b' show ?thesis
    by (metis (no_types, lifting))
qed

text \<open>
  Against C8 as it is worded: the override \<open>{__proto__: 'text.other'}\<close> has the scalar
  key \<open>__proto__\<close>, and the merge with the defaults \<open>{chargeStart: 'text.start'}\<close> returns
  the defaults alone. The assignment \<open>output['__proto__'] = 'text.other'\<close> has gone to the
  prototype setter, which ignores a string, and the result has no such key.
\<close>

theorem C8_proto_key_counterexample:
  "map_of [(''__proto__'', JStr ''text.other'')] ''__proto__'' = Some (JStr ''text.other'')
   \<and> deepMerge (JObj [(''chargeStart'', JStr ''text.start'')])
                (JObj [(''__proto__'', JStr ''text.other'')])
       = Some (JObj [(''chargeStart'', JStr ''text.start'')])
   \<and> map_of [(''chargeStart'', JStr ''text.start'')] ''__proto__'' = None"
  by (simp add: Object_prototype_def)

subsection \<open>Configuration checks\<close>

lemma deepMerge_DEFAULT_ENTITIES_empty:
  "deepMerge DEFAULT_ENTITIES (JObj []) = Some DEFAULT_ENTITIES"
  by (simp add: DEFAULT_ENTITIES_def Object_prototype_def)

lemma setConfig_max_error:
  assumes "truthy config"
    and "js_get config ''maxOutput'' = Some v" "truthy (Some v)" "not_positive_number v"
  shows "setConfig config this =
           (if js_or (js_get config ''mode'') (JStr ''both'')
                 \<in> set [JStr ''charge'', JStr ''discharge'', JStr ''both'']
            then (Some (Invalid_maxOutput v),
                  this\<lparr>this_mode := js_or (js_get config ''mode'') (JStr ''both''),
                       this_inverterMaxOutput := v\<rparr>)
            else (Some (Invalid_mode (js_or (js_get config ''mode'') (JStr ''both''))),
                  this\<lparr>this_mode := js_or (js_get config ''mode'') (JStr ''both'')\<rparr>))"
  using assms by (simp add: setConfig_def Let_def js_or_def)

lemma setConfig_max_default:
  assumes "truthy config" "\<not> truthy (js_get config ''maxOutput'')"
  shows "setConfig config this =
           (if js_or (js_get config ''mode'') (JStr ''both'')
                 \<in> set [JStr ''charge'', JStr ''discharge'', JStr ''both'']
            then (None,
                  (if this_hass_set this
                   then \<lambda>t. t\<lparr>renderCard_calls := Suc (renderCard_calls this)\<rparr>
                   else (\<lambda>t. t))
                  (this\<lparr>this_mode := js_or (js_get config ''mode'') (JStr ''both''),
                        this_inverterMaxOutput := JNum 5,
                        this_entities := deepMerge DEFAULT_ENTITIES
                                           (js_or (js_get config ''entities'') (JObj [])),
                        this_debug := (js_get config ''debug'' = Some (JBool True))\<rparr>))
            else (Some (Invalid_mode (js_or (js_get config ''mode'') (JStr ''both''))),
                  this\<lparr>this_mode := js_or (js_get config ''mode'') (JStr ''both'')\<rparr>))"
proof -
  have "js_or (js_get config ''maxOutput'') (JNum 5) = JNum 5"
    using assms(2) by (cases "js_get config ''maxOutput''") (simp_all add: js_or_def)
  then show ?thesis
    using assms(1) by (simp add: setConfig_def Let_def)
qed

text \<open>
  C3. A configuration whose \<open>maxOutput\<close> is a truthy value that is not a positive number
  (a negative number, or a non-number such as a non-empty string, \<open>true\<close>, an array or
  an object) makes \<open>setConfig\<close> throw: the invalid-maxOutput error when the mode is
  valid, the invalid-mode error before that otherwise. The entity map, the debug flag
  and the rendering are as they were before the call.
\<close>

theorem C3_truthy_invalid_maxOutput_throws:
  assumes "truthy config"
    and "js_get config ''maxOutput'' = Some v" "truthy (Some v)" "not_positive_number v"
  shows "\<exists>e. fst (setConfig config this) = Some e
     \<and> (js_or (js_get config ''mode'') (JStr ''both'')
            \<in> set [JStr ''charge'', JStr ''discharge'', JStr ''both'']
          \<longrightarrow> e = Invalid_maxOutput v)
     \<and> this_entities (snd (setConfig config this)) = this_entities this
     \<and> this_debug (snd (setConfig config this)) = this_debug this
     \<and> renderCard_calls (snd (setConfig config this)) = renderCard_calls this"
  unfolding setConfig_max_error [OF assms] by simp

theorem C3_truthy_invalid_maxOutput_throws_witness:
  "truthy (Some (JObj [(''mode'', JStr ''charge''), (''maxOutput'', JNum (- 1)), (''debug'', JBool True)]))
   \<and> js_get (Some (JObj [(''mode'', JStr ''charge''), (''maxOutput'', JNum (- 1)), (''debug'', JBool True)]))
        ''maxOutput'' = Some (JNum (- 1))
   \<and> truthy (Some (JNum (- 1))) \<and> not_positive_number (JNum (- 1))
   \<and> setConfig (Some (JObj [(''mode'', JStr ''charge''), (''maxOutput'', JNum (- 1)), (''debug'', JBool True)]))
        (constructed\<lparr>this_hass_set := True\<rparr>)
       = (Some (Invalid_maxOutput (JNum (- 1))),
          constructed\<lparr>this_hass_set := True, this_mode := JStr ''charge'',
                       this_inverterMaxOutput := JNum (- 1)\<rparr>)"
proof -
  let ?c = "Some (JObj [(''mode'', JStr ''charge''), (''maxOutput'', JNum (- 1)), (''debug'', JBool True)])"
  have h: "truthy ?c" "js_get ?c ''maxOutput'' = Some (JNum (- 1))"
    "truthy (Some (JNum (- 1)))" "not_positive_number (JNum (- 1))"
    by simp_all
  have m: "js_or (js_get ?c ''mode'') (JStr ''both'') = JStr ''charge''"
    by (simp add: js_or_def)
  from C3_truthy_invalid_maxOutput_throws [OF h, of "constructed\<lparr>this_hass_set := True\<rparr>"]
  have "fst (setConfig ?c (constructed\<lparr>this_hass_set := True\<rparr>)) = Some (Invalid_maxOutput (JNum (- 1)))"
    unfolding m by auto
  moreover have "snd (setConfig ?c (constructed\<lparr>this_hass_set := True\<rparr>))
      = constructed\<lparr>this_hass_set := True, this_mode := JStr ''charge'',
                       this_inverterMaxOutput := JNum (- 1)\<rparr>"
    by (simp add: setConfig_def Let_def js_or_def constructed_def)
  ultimately have "setConfig ?c (constructed\<lparr>this_hass_set := True\<rparr>)
       = (Some (Invalid_maxOutput (JNum (- 1))),
          constructed\<lparr>this_hass_set := True, this_mode := JStr ''charge'',
                       this_inverterMaxOutput := JNum (- 1)\<rparr>)"
    by (simp add: prod_eq_iff)
  with h show ?thesis by simp
qed

text \<open>
  Against C3 as it is worded: 0, \<open>null\<close>, \<open>false\<close> and the empty string are not
  positive numbers, yet with each of them as \<open>maxOutput\<close> \<open>setConfig\<close> throws nothing and
  leaves a freshly constructed card as it was, with 5 kW.
\<close>

theorem C3_falsy_maxOutput_counterexample:
  "not_positive_number (JNum 0) \<and> not_positive_number JNull
   \<and> not_positive_number (JBool False) \<and> not_positive_number (JStr [])
   \<and> setConfig (Some (JObj [(''maxOutput'', JNum 0)])) constructed = (None, constructed)
   \<and> setConfig (Some (JObj [(''maxOutput'', JNull)])) constructed = (None, constructed)
   \<and> setConfig (Some (JObj [(''maxOutput'', JBool False)])) constructed = (None, constructed)
   \<and> setConfig (Some (JObj [(''maxOutput'', JStr [])])) constructed = (None, constructed)
   \<and> this_inverterMaxOutput constructed = JNum 5"
  by (simp add: setConfig_def Let_def js_or_def constructed_def deepMerge_DEFAULT_ENTITIES_empty)

text \<open>
  C9. When \<open>maxOutput\<close> is absent or falsy (\<open>null\<close>, \<open>false\<close>, 0, the empty string),
  \<open>setConfig\<close> never throws the invalid-maxOutput error. When the mode passes its check
  (it is absent, falsy or one of \<open>charge\<close>, \<open>discharge\<close>, \<open>both\<close>), \<open>setConfig\<close> throws
  nothing and the maximum output of the inverter is the default 5.0 kW. When the mode
  fails its check, the invalid-mode error is thrown before \<open>maxOutput\<close> is read, and
  the maximum output of the inverter is what it was before the call.
\<close>

theorem C9_falsy_maxOutput_defaults:
  assumes "truthy config" "\<not> truthy (js_get config ''maxOutput'')"
  shows "(\<forall>v. fst (setConfig config this) \<noteq> Some (Invalid_maxOutput v))
     \<and> (js_or (js_get config ''mode'') (JStr ''both'')
            \<in> set [JStr ''charge'', JStr ''discharge'', JStr ''both'']
          \<longrightarrow> fst (setConfig config this) = None
              \<and> this_inverterMaxOutput (snd (setConfig config this)) = JNum 5)
     \<and> (js_or (js_get config ''mode'') (JStr ''both'')
            \<notin> set [JStr ''charge'', JStr ''discharge'', JStr ''both'']
          \<longrightarrow> fst (setConfig config this)
                = Some (Invalid_mode (js_or (js_get config ''mode'') (JStr ''both'')))
              \<and> this_inverterMaxOutput (snd (setConfig config this)) = this_inverterMaxOutput this)"
  unfolding setConfig_max_default [OF assms] by simp

theorem C9_falsy_maxOutput_defaults_witness:
  "truthy (Some (JObj [(''mode'', JStr ''discharge''), (''maxOutput'', JNum 0)]))
   \<and> \<not> truthy (js_get (Some (JObj [(''mode'', JStr ''discharge''), (''maxOutput'', JNum 0)])) ''maxOutput'')
   \<and> fst (setConfig (Some (JObj [(''mode'', JStr ''discharge''), (''maxOutput'', JNum 0)]))
           (constructed\<lparr>this_inverterMaxOutput := JNum 10\<rparr>)) = None
   \<and> this_inverterMaxOutput
        (snd (setConfig (Some (JObj [(''mode'', JStr ''discharge''), (''maxOutput'', JNum 0)]))
           (constructed\<lparr>this_inverterMaxOutput := JNum 10\<rparr>))) = JNum 5"
proof -
  let ?c = "Some (JObj [(''mode'', JStr ''discharge''), (''maxOutput'', JNum 0)])"
  have h: "truthy ?c" "\<not> truthy (js_get ?c ''maxOutput'')"
    by simp_all
  have m: "js_or (js_get ?c ''mode'') (JStr ''both'') = JStr ''discharge''"
    by (simp add: js_or_def)
  from C9_falsy_maxOutput_defaults [OF h, of "constructed\<lparr>this_inverterMaxOutput := JNum 10\<rparr>"]
  have "fst (setConfig ?c (constructed\<lparr>this_inverterMaxOutput := JNum 10\<rparr>)) = None
      \<and> this_inverterMaxOutput (snd (setConfig ?c (constructed\<lparr>this_inverterMaxOutput := JNum 10\<rparr>))) = JNum 5"
    unfolding m by simp
  with h show ?thesis by simp
qed

text \<open>
  Against C9 as it is worded: with \<open>{mode: 'invalid', maxOutput: 0}\<close> on a card that an
  earlier configuration has set to 10 kW, \<open>setConfig\<close> throws the invalid-mode error
  and the maximum output is still 10, not 5.
\<close>

theorem C9_invalid_mode_counterexample:
  "truthy (Some (JObj [(''mode'', JStr ''invalid''), (''maxOutput'', JNum 0)]))
   \<and> \<not> truthy (js_get (Some (JObj [(''mode'', JStr ''invalid''), (''maxOutput'', JNum 0)])) ''maxOutput'')
   \<and> setConfig (Some (JObj [(''mode'', JStr ''invalid''), (''maxOutput'', JNum 0)]))
         (constructed\<lparr>this_inverterMaxOutput := JNum 10\<rparr>)
       = (Some (Invalid_mode (JStr ''invalid'')),
          constructed\<lparr>this_inverterMaxOutput := JNum 10, this_mode := JStr ''invalid''\<rparr>)
   \<and> this_inverterMaxOutput
         (snd (setConfig (Some (JObj [(''mode'', JStr ''invalid''), (''maxOutput'', JNum 0)]))
                 (constructed\<lparr>this_inverterMaxOutput := JNum 10\<rparr>))) = JNum 10"
  by (simp add: setConfig_def Let_def js_or_def constructed_def)

subsection \<open>Refresh decision\<close>

lemma same_relevant_unchanged:
  "same_relevant a b \<Longrightarrow> \<not> entity_changed a b"
  by (cases a; cases b) simp_all

lemma shouldUpdate_for_same:
  assumes "\<forall>eid \<in> set ids. same_relevant (map_of (states A) eid) (map_of (states B) eid)"
  shows "\<not> shouldUpdate_for A B ids"
  using assms by (induction ids) (simp_all add: same_relevant_unchanged)

lemma shouldUpdate_for_changed:
  assumes "eid \<in> set ids"
    and "entity_changed (map_of (states A) eid) (map_of (states B) eid)"
  shows "shouldUpdate_for A B ids"
  using assms by (induction ids) auto

lemma set_Set_spread: "set (Set_spread seen xs) \<subseteq> set xs"
  by (induction xs arbitrary: seen) auto

lemma set_uniqueIds: "set (uniqueIds this) \<subseteq> set (relevantEntityIds this)"
  unfolding uniqueIds_def using set_Set_spread [of "[]" "relevantEntityIds this"] by auto

text \<open>
  C1. Let \<open>A\<close> be the snapshot the card holds and \<open>B\<close> the new one. If for every entity
  of the roles relevant in the current mode the two snapshots agree (the entity is
  absent from both, or present in both with the same state, pending-write attribute,
  last-changed and last-updated timestamps), then \<open>shouldUpdate\<close> returns false, whatever
  else differs: other entities, other attributes, the identity of the objects.
\<close>

theorem C1_irrelevant_differences_no_refresh:
  assumes "hass this = Some A"
    and "\<forall>eid \<in> set (relevantEntityIds this).
           same_relevant (map_of (states A) eid) (map_of (states B) eid)"
  shows "\<not> shouldUpdate this B"
proof -
  have "\<forall>eid \<in> set (uniqueIds this). same_relevant (map_of (states A) eid) (map_of (states B) eid)"
    using assms(2) set_uniqueIds by blast
  then have "\<not> shouldUpdate_for A B (uniqueIds this)"
    by (rule shouldUpdate_for_same)
  with assms(1) show ?thesis
    by (simp add: shouldUpdate_def)
qed

theorem C1_irrelevant_differences_no_refresh_witness:
  "hass (card_with [(''switch.saj_charging_control'', entity_at 1 ''on''),
                    (''sensor.outdoor_temperature'', entity_at 2 ''11.5'')])
     = Some \<lparr>states = [(''switch.saj_charging_control'', entity_at 1 ''on''),
                          (''sensor.outdoor_temperature'', entity_at 2 ''11.5'')]\<rparr>
   \<and> list_all
         (\<lambda>eid. same_relevant
           (map_of (states \<lparr>states = [(''switch.saj_charging_control'', entity_at 1 ''on''),
                                        (''sensor.outdoor_temperature'', entity_at 2 ''11.5'')]\<rparr>) eid)
           (map_of (states \<lparr>states = [(''switch.saj_charging_control'',
                                          (entity_at 3 ''on'')\<lparr>attributes := [(''friendly_name'', PStr ''Charging'')]\<rparr>),
                                        (''sensor.outdoor_temperature'', entity_at 4 ''12.0'')]\<rparr>) eid))
         (relevantEntityIds
            (card_with [(''switch.saj_charging_control'', entity_at 1 ''on''),
                        (''sensor.outdoor_temperature'', entity_at 2 ''11.5'')]))
   \<and> \<not> shouldUpdate
         (card_with [(''switch.saj_charging_control'', entity_at 1 ''on''),
                     (''sensor.outdoor_temperature'', entity_at 2 ''11.5'')])
         \<lparr>states = [(''switch.saj_charging_control'',
                        (entity_at 3 ''on'')\<lparr>attributes := [(''friendly_name'', PStr ''Charging'')]\<rparr>),
                      (''sensor.outdoor_temperature'', entity_at 4 ''12.0'')]\<rparr>"
proof -
  let ?A = "[(''switch.saj_charging_control'', entity_at 1 ''on''),
             (''sensor.outdoor_temperature'', entity_at 2 ''11.5'')]"
  let ?B = "\<lparr>states = [(''switch.saj_charging_control'',
                        (entity_at 3 ''on'')\<lparr>attributes := [(''friendly_name'', PStr ''Charging'')]\<rparr>),
                      (''sensor.outdoor_temperature'', entity_at 4 ''12.0'')]\<rparr>"
  have h: "hass (card_with ?A) = Some \<lparr>states = ?A\<rparr>"
    by (simp add: card_with_def)
  have s: "\<forall>eid \<in> set (relevantEntityIds (card_with ?A)).
         same_relevant (map_of (states \<lparr>states = ?A\<rparr>) eid) (map_of (states ?B) eid)"
    by (simp add: relevantEntityIds_def card_with_def default_entity_ids_def entity_at_def
        pending_write_def)
  have l: "list_all
         (\<lambda>eid. same_relevant (map_of (states \<lparr>states = ?A\<rparr>) eid) (map_of (states ?B) eid))
         (relevantEntityIds (card_with ?A))"
    using s by (simp only: list_all_iff)
  from C1_irrelevant_differences_no_refresh [OF h s] h l show ?thesis
    by blast
qed

subsection \<open>Timer expiry\<close>

lemma currentTimeMinutes:
  assumes "getHours now < 24" "getMinutes now < 60"
  shows "timeToMinutes (Some (getCurrentTime now)) = Num (int (getHours now * 60 + getMinutes now))"
  using assms by (simp only: getCurrentTime_hhmm timeToMinutes_hhmm)

lemma checkTimerExpiration_blocks:
  assumes "getHours now < 24" "getMinutes now < 60" "hass this = Some h"
  shows "checkTimerExpiration this now =
           (if mode this \<noteq> ''discharge''
               \<and> timer_expired h now (chargingSwitch (entities this)) (chargeEnd (entities this))
            then [\<lparr>domain = ''switch'', service = ''turn_off'',
                    entity_id = chargingSwitch (entities this), val = None\<rparr>]
            else [])
           @ (if mode this \<noteq> ''charge''
                 \<and> timer_expired h now (dischargingSwitch (entities this)) (dischargeEnd (entities this))
              then [\<lparr>domain = ''switch'', service = ''turn_off'',
                      entity_id = dischargingSwitch (entities this), val = None\<rparr>]
              else [])"
  unfolding checkTimerExpiration_def timer_expired_def Let_def currentTimeMinutes [OF assms(1,2)]
  using assms(3) by (simp split: option.split)

lemma timer_expired_on:
  assumes "map_of (states h) sw_id = Some sw" "state sw = ''on''"
    and "map_of (states h) end_id = Some en" "state en \<noteq> []"
    and "\<not> timeRegex_test (state en)
         \<or> (\<exists>e. timeToMinutes (Some (state en)) = Num e
                \<and> e \<le> int (getHours now * 60 + getMinutes now))"
  shows "timer_expired h now sw_id end_id"
proof -
  from assms(5) obtain e where "timeToMinutes (Some (state en)) = Num e"
    "e \<le> int (getHours now * 60 + getMinutes now)"
    using timeToMinutes_malformed [of "state en"] by fastforce
  with assms(1-4) show ?thesis
    by (simp add: timer_expired_def)
qed

text \<open>
  C2. Let the expiry check run with a snapshot and a clock, the two switch roles being
  bound to different entities. For a direction enabled by the mode whose switch is
  \<open>on\<close> and whose end-time entity is present with a state that is not the empty
  string: if the end time in minutes (0 for a malformed string) is at most the current
  time in minutes, exactly one \<open>switch.turn_off\<close> call for that direction's switch is
  made; a malformed end time that is not empty always has this effect.
\<close>

theorem C2_expired_timer_switches_off:
  assumes "getHours now < 24" "getMinutes now < 60" "hass this = Some h"
    and "chargingSwitch (entities this) \<noteq> dischargingSwitch (entities this)"
  shows "(\<forall>sw en. mode this \<noteq> ''discharge''
            \<and> map_of (states h) (chargingSwitch (entities this)) = Some sw \<and> state sw = ''on''
            \<and> map_of (states h) (chargeEnd (entities this)) = Some en \<and> state en \<noteq> []
            \<and> (\<not> timeRegex_test (state en)
                \<or> (\<exists>e. timeToMinutes (Some (state en)) = Num e
                       \<and> e \<le> int (getHours now * 60 + getMinutes now)))
          \<longrightarrow> count_list (checkTimerExpiration this now)
                 \<lparr>domain = ''switch'', service = ''turn_off'',
                  entity_id = chargingSwitch (entities this), val = None\<rparr> = 1)
       \<and> (\<forall>sw en. mode this \<noteq> ''charge''
            \<and> map_of (states h) (dischargingSwitch (entities this)) = Some sw \<and> state sw = ''on''
            \<and> map_of (states h) (dischargeEnd (entities this)) = Some en \<and> state en \<noteq> []
            \<and> (\<not> timeRegex_test (state en)
                \<or> (\<exists>e. timeToMinutes (Some (state en)) = Num e
                       \<and> e \<le> int (getHours now * 60 + getMinutes now)))
          \<longrightarrow> count_list (checkTimerExpiration this now)
                 \<lparr>domain = ''switch'', service = ''turn_off'',
                  entity_id = dischargingSwitch (entities this), val = None\<rparr> = 1)"
proof (intro conjI allI impI)
  fix sw en
  assume a: "mode this \<noteq> ''discharge''
            \<and> map_of (states h) (chargingSwitch (entities this)) = Some sw \<and> state sw = ''on''
            \<and> map_of (states h) (chargeEnd (entities this)) = Some en \<and> state en \<noteq> []
            \<and> (\<not> timeRegex_test (state en)
                \<or> (\<exists>e. timeToMinutes (Some (state en)) = Num e
                       \<and> e \<le> int (getHours now * 60 + getMinutes now)))"
  then have "timer_expired h now (chargingSwitch (entities this)) (chargeEnd (entities this))"
    by (intro timer_expired_on [of h _ sw _ en]) simp_all
  with a assms(4) show "count_list (checkTimerExpiration this now)
                 \<lparr>domain = ''switch'', service = ''turn_off'',
                  entity_id = chargingSwitch (entities this), val = None\<rparr> = 1"
    unfolding checkTimerExpiration_blocks [OF assms(1-3)] by simp
next
  fix sw en
  assume a: "mode this \<noteq> ''charge''
            \<and> map_of (states h) (dischargingSwitch (entities this)) = Some sw \<and> state sw = ''on''
            \<and> map_of (states h) (dischargeEnd (entities this)) = Some en \<and> state en \<noteq> []
            \<and> (\<not> timeRegex_test (state en)
                \<or> (\<exists>e. timeToMinutes (Some (state en)) = Num e
                       \<and> e \<le> int (getHours now * 60 + getMinutes now)))"
  then have "timer_expired h now (dischargingSwitch (entities this)) (dischargeEnd (entities this))"
    by (intro timer_expired_on [of h _ sw _ en]) simp_all
  with a assms(4) show "count_list (checkTimerExpiration this now)
                 \<lparr>domain = ''switch'', service = ''turn_off'',
                  entity_id = dischargingSwitch (entities this), val = None\<rparr> = 1"
    unfolding checkTimerExpiration_blocks [OF assms(1-3)] by simp
qed

theorem C2_expired_timer_switches_off_witness:
  "getHours \<lparr>getHours = 10, getMinutes = 0, getDay = 3\<rparr> < 24
   \<and> getMinutes \<lparr>getHours = 10, getMinutes = 0, getDay = 3\<rparr> < 60
   \<and> chargingSwitch default_entity_ids \<noteq> dischargingSwitch default_entity_ids
   \<and> timeToMinutes (Some ''10:00'') = Num 600
   \<and> \<not> timeRegex_test ''unknown''
   \<and> count_list
        (checkTimerExpiration
           (card_with [(''switch.saj_charging_control'', entity_at 1 ''on''),
                       (''text.saj_charge_end_time_time'', entity_at 2 ''10:00''),
                       (''switch.saj_discharging_control'', entity_at 3 ''on''),
                       (''text.saj_discharge1_end_time_time'', entity_at 4 ''unknown'')])
           \<lparr>getHours = 10, getMinutes = 0, getDay = 3\<rparr>)
        \<lparr>domain = ''switch'', service = ''turn_off'',
         entity_id = ''switch.saj_charging_control'', val = None\<rparr> = 1
   \<and> count_list
        (checkTimerExpiration
           (card_with [(''switch.saj_charging_control'', entity_at 1 ''on''),
                       (''text.saj_charge_end_time_time'', entity_at 2 ''10:00''),
                       (''switch.saj_discharging_control'', entity_at 3 ''on''),
                       (''text.saj_discharge1_end_time_time'', entity_at 4 ''unknown'')])
           \<lparr>getHours = 10, getMinutes = 0, getDay = 3\<rparr>)
        \<lparr>domain = ''switch'', service = ''turn_off'',
         entity_id = ''switch.saj_discharging_control'', val = None\<rparr> = 1"
proof -
  let ?es = "[(''switch.saj_charging_control'', entity_at 1 ''on''),
              (''text.saj_charge_end_time_time'', entity_at 2 ''10:00''),
              (''switch.saj_discharging_control'', entity_at 3 ''on''),
              (''text.saj_discharge1_end_time_time'', entity_at 4 ''unknown'')]"
  let ?now = "\<lparr>getHours = 10, getMinutes = 0, getDay = 3\<rparr>"
  have c: "getHours ?now < 24" "getMinutes ?now < 60"
    by simp_all
  have h: "hass (card_with ?es) = Some \<lparr>states = ?es\<rparr>"
    by (simp add: card_with_def)
  have d: "chargingSwitch (entities (card_with ?es)) \<noteq> dischargingSwitch (entities (card_with ?es))"
    by (simp add: card_with_def default_entity_ids_def)
  have ids: "chargingSwitch (entities (card_with ?es)) = ''switch.saj_charging_control''"
    "chargeEnd (entities (card_with ?es)) = ''text.saj_charge_end_time_time''"
    "dischargingSwitch (entities (card_with ?es)) = ''switch.saj_discharging_control''"
    "dischargeEnd (entities (card_with ?es)) = ''text.saj_discharge1_end_time_time''"
    "mode (card_with ?es) = ''both''"
    by (simp_all add: card_with_def default_entity_ids_def)
  have t: "timeToMinutes (Some ''10:00'') = Num 600"
    by (simp add: timeToMinutes_def js_Number_def isDigit_def digitValue_def element_def)
  have m: "\<not> timeRegex_test ''unknown''"
    by simp
  note inst = C2_expired_timer_switches_off [OF c h d, unfolded ids]
  have charge: "count_list (checkTimerExpiration (card_with ?es) ?now)
        \<lparr>domain = ''switch'', service = ''turn_off'',
         entity_id = ''switch.saj_charging_control'', val = None\<rparr> = 1"
    using inst [THEN conjunct1, THEN spec, THEN spec,
        of "entity_at 1 ''on''" "entity_at 2 ''10:00''"] t
    by (simp add: entity_at_def)
  have discharge: "count_list (checkTimerExpiration (card_with ?es) ?now)
        \<lparr>domain = ''switch'', service = ''turn_off'',
         entity_id = ''switch.saj_discharging_control'', val = None\<rparr> = 1"
    using inst [THEN conjunct2, THEN spec, THEN spec,
        of "entity_at 3 ''on''" "entity_at 4 ''unknown''"]
    by (simp add: entity_at_def)
  from c d t m charge discharge show ?thesis
    by (simp add: card_with_def)
qed

text \<open>
  Against C2 as it is worded: the charging switch is \<open>on\<close>, the end-time entity is
  present and its state is the empty string, which is malformed and counts as minute 0,
  not later than 12:00; yet the check makes no call. And when both switch roles are
  bound to one entity, two calls for that switch are made.
\<close>

theorem C2_empty_end_time_counterexample:
  "map_of [(''switch.saj_charging_control'', entity_at 1 ''on''),
           (''text.saj_charge_end_time_time'', entity_at 2 [])] ''switch.saj_charging_control''
     = Some (entity_at 1 ''on'')
   \<and> map_of [(''switch.saj_charging_control'', entity_at 1 ''on''),
             (''text.saj_charge_end_time_time'', entity_at 2 [])] ''text.saj_charge_end_time_time''
       = Some (entity_at 2 [])
   \<and> \<not> timeRegex_test (state (entity_at 2 []))
   \<and> timeToMinutes (Some (state (entity_at 2 []))) = Num 0
   \<and> timeToMinutes (Some (getCurrentTime \<lparr>getHours = 12, getMinutes = 0, getDay = 3\<rparr>)) = Num 720
   \<and> checkTimerExpiration
        (card_with [(''switch.saj_charging_control'', entity_at 1 ''on''),
                    (''text.saj_charge_end_time_time'', entity_at 2 [])])
        \<lparr>getHours = 12, getMinutes = 0, getDay = 3\<rparr> = []
   \<and> checkTimerExpiration
        ((card_with [(''switch.saj_charging_control'', entity_at 1 ''on''),
                     (''text.saj_charge_end_time_time'', entity_at 2 ''10:00''),
                     (''text.saj_discharge1_end_time_time'', entity_at 3 ''11:00'')])
           \<lparr>entities := default_entity_ids\<lparr>dischargingSwitch := ''switch.saj_charging_control''\<rparr>\<rparr>)
        \<lparr>getHours = 12, getMinutes = 0, getDay = 3\<rparr>
       = [\<lparr>domain = ''switch'', service = ''turn_off'',
            entity_id = ''switch.saj_charging_control'', val = None\<rparr>,
          \<lparr>domain = ''switch'', service = ''turn_off'',
            entity_id = ''switch.saj_charging_control'', val = None\<rparr>]"
proof -
  let ?now = "\<lparr>getHours = 12, getMinutes = 0, getDay = 3\<rparr>"
  let ?es = "[(''switch.saj_charging_control'', entity_at 1 ''on''),
              (''text.saj_charge_end_time_time'', entity_at 2 [])]"
  let ?es2 = "[(''switch.saj_charging_control'', entity_at 1 ''on''),
               (''text.saj_charge_end_time_time'', entity_at 2 ''10:00''),
               (''text.saj_discharge1_end_time_time'', entity_at 3 ''11:00'')]"
  let ?card2 = "(card_with ?es2)
     \<lparr>entities := default_entity_ids\<lparr>dischargingSwitch := ''switch.saj_charging_control''\<rparr>\<rparr>"
  have c: "getHours ?now < 24" "getMinutes ?now < 60"
    by simp_all
  have n: "timeToMinutes (Some (getCurrentTime ?now)) = Num 720"
    using currentTimeMinutes [OF c] by simp
  have h: "hass (card_with ?es) = Some \<lparr>states = ?es\<rparr>"
    by (simp add: card_with_def)
  have h2: "hass ?card2 = Some \<lparr>states = ?es2\<rparr>"
    by (simp add: card_with_def)
  have t: "timeToMinutes (Some ''10:00'') = Num 600" "timeToMinutes (Some ''11:00'') = Num 660"
    by (simp_all add: timeToMinutes_def js_Number_def isDigit_def digitValue_def element_def)
  have one: "checkTimerExpiration (card_with ?es) ?now = []"
    unfolding checkTimerExpiration_blocks [OF c h]
    by (simp add: timer_expired_def card_with_def default_entity_ids_def entity_at_def)
  have two: "checkTimerExpiration ?card2 ?now
       = [\<lparr>domain = ''switch'', service = ''turn_off'',
            entity_id = ''switch.saj_charging_control'', val = None\<rparr>,
          \<lparr>domain = ''switch'', service = ''turn_off'',
            entity_id = ''switch.saj_charging_control'', val = None\<rparr>]"
    unfolding checkTimerExpiration_blocks [OF c h2]
    by (simp add: timer_expired_def card_with_def default_entity_ids_def entity_at_def t)
  from n one two show ?thesis
    by (simp add: entity_at_def timeToMinutes_def)
qed

subsection \<open>Enable while the switch is on\<close>







end
